theory Spec2Isabelle
  imports Complex_Main "HOL-Library.Sublist"
begin

section \<open>JavaScript values, numbers and strings\<close>

text \<open>
  The program is JavaScript (Node.js). Its values are modelled by the datatype \<open>jval\<close>.
  A JavaScript string is modelled by a HOL \<open>string\<close>: every \<open>char\<close> is one code unit in
  the range U+0000 to U+00FF (Basic Latin and Latin-1 Supplement); code units above U+00FF
  are not part of the model. A JavaScript number that is finite is modelled by an exact
  rational; the rounding of IEEE doubles is not part of the model. Where the program can
  meet NaN or an infinity (the bounds of a search), the type \<open>number\<close> adds them to the
  rationals.
\<close>

datatype jval =
    JUndefined
  | JNull
  | JBool bool
  | JNum rat
  | JStr string
  | JArr "jval list"
  | JObj "(string \<times> jval) list"

text \<open>
  Exceptions are values of type \<open>error\<close>. \<open>TypeError\<close> and \<open>SyntaxError\<close> are raised by the
  runtime, \<open>LlmNoJson\<close>, \<open>LlmInvalidIntent\<close> and \<open>LlmInvalidItem\<close> are the three
  \<^verbatim>\<open>throw new Error(...)\<close> of intentParser.js, \<open>BackendError\<close> is a failed call of the
  language-model backend. \<open>NotANumber\<close> marks a result that JavaScript represents by NaN.
\<close>

datatype error =
    TypeError
  | SyntaxError
  | LlmNoJson
  | LlmInvalidIntent
  | LlmInvalidItem
  | BackendError string
  | NotANumber

datatype number = NaN | NegInfinity | Num rat | PosInfinity

text \<open>
  The comparisons of a finite number with a number: \<^verbatim>\<open>p > b\<close>, \<^verbatim>\<open>p < b\<close>, \<^verbatim>\<open>p <= b\<close> and
  \<^verbatim>\<open>p >= b\<close>. Every comparison with NaN is false.
\<close>

fun jsGreater :: "rat \<Rightarrow> number \<Rightarrow> bool" where
  "jsGreater p NaN = False"
| "jsGreater p NegInfinity = True"
| "jsGreater p (Num m) = (p > m)"
| "jsGreater p PosInfinity = False"

fun jsLess :: "rat \<Rightarrow> number \<Rightarrow> bool" where
  "jsLess p NaN = False"
| "jsLess p NegInfinity = False"
| "jsLess p (Num m) = (p < m)"
| "jsLess p PosInfinity = True"

fun jsLessEq :: "rat \<Rightarrow> number \<Rightarrow> bool" where
  "jsLessEq p NaN = False"
| "jsLessEq p NegInfinity = False"
| "jsLessEq p (Num m) = (p \<le> m)"
| "jsLessEq p PosInfinity = True"

fun jsGreaterEq :: "rat \<Rightarrow> number \<Rightarrow> bool" where
  "jsGreaterEq p NaN = False"
| "jsGreaterEq p NegInfinity = True"
| "jsGreaterEq p (Num m) = (p \<ge> m)"
| "jsGreaterEq p PosInfinity = False"

fun truthy :: "jval \<Rightarrow> bool" where
  "truthy JUndefined = False"
| "truthy JNull = False"
| "truthy (JBool b) = b"
| "truthy (JNum n) = (n \<noteq> 0)"
| "truthy (JStr s) = (s \<noteq> [])"
| "truthy (JArr _) = True"
| "truthy (JObj _) = True"

fun typeof :: "jval \<Rightarrow> string" where
  "typeof JUndefined = ''undefined''"
| "typeof JNull = ''object''"
| "typeof (JBool _) = ''boolean''"
| "typeof (JNum _) = ''number''"
| "typeof (JStr _) = ''string''"
| "typeof (JArr _) = ''object''"
| "typeof (JObj _) = ''object''"

subsection \<open>String methods\<close>

text \<open>
  \<^verbatim>\<open>String.prototype.toLowerCase\<close> on Latin-1: the capital letters are A-Z and U+00C0 to
  U+00DE without the multiplication sign U+00D7; the small letter of each is 32 code units
  above it.
\<close>

definition asciiUpper :: string where
  "asciiUpper = ''ABCDEFGHIJKLMNOPQRSTUVWXYZ''"

definition asciiLower :: string where
  "asciiLower = ''abcdefghijklmnopqrstuvwxyz''"

definition latinUpper :: string where
  "latinUpper =
     [CHR 0xC0, CHR 0xC1, CHR 0xC2, CHR 0xC3, CHR 0xC4, CHR 0xC5, CHR 0xC6, CHR 0xC7,
      CHR 0xC8, CHR 0xC9, CHR 0xCA, CHR 0xCB, CHR 0xCC, CHR 0xCD, CHR 0xCE, CHR 0xCF,
      CHR 0xD0, CHR 0xD1, CHR 0xD2, CHR 0xD3, CHR 0xD4, CHR 0xD5, CHR 0xD6, CHR 0xD8,
      CHR 0xD9, CHR 0xDA, CHR 0xDB, CHR 0xDC, CHR 0xDD, CHR 0xDE]"

definition latinLower :: string where
  "latinLower =
     [CHR 0xE0, CHR 0xE1, CHR 0xE2, CHR 0xE3, CHR 0xE4, CHR 0xE5, CHR 0xE6, CHR 0xE7,
      CHR 0xE8, CHR 0xE9, CHR 0xEA, CHR 0xEB, CHR 0xEC, CHR 0xED, CHR 0xEE, CHR 0xEF,
      CHR 0xF0, CHR 0xF1, CHR 0xF2, CHR 0xF3, CHR 0xF4, CHR 0xF5, CHR 0xF6, CHR 0xF8,
      CHR 0xF9, CHR 0xFA, CHR 0xFB, CHR 0xFC, CHR 0xFD, CHR 0xFE]"

definition toLowerChar :: "char \<Rightarrow> char" where
  "toLowerChar c =
     (case map_of (zip (asciiUpper @ latinUpper) (asciiLower @ latinLower)) c of
        Some l \<Rightarrow> l
      | None \<Rightarrow> c)"

definition toLowerCase :: "string \<Rightarrow> string" where
  "toLowerCase s = map toLowerChar s"

text \<open>
  White space and line terminators of ECMAScript within Latin-1: TAB, LF, VT, FF, CR, space
  and the no-break space U+00A0. The same set is \<^verbatim>\<open>\s\<close> of a regular expression and what
  \<^verbatim>\<open>trim\<close> strips.
\<close>

definition isSpace :: "char \<Rightarrow> bool" where
  "isSpace c = (c \<in> set [CHR 0x09, CHR 0x0A, CHR 0x0B, CHR 0x0C, CHR 0x0D, CHR 0x20, CHR 0xA0])"

definition isDigit :: "char \<Rightarrow> bool" where
  "isDigit c = (c \<in> set ''0123456789'')"

definition trim :: "string \<Rightarrow> string" where
  "trim s = rev (dropWhile isSpace (rev (dropWhile isSpace s)))"

text \<open>\<^verbatim>\<open>s.includes(sub)\<close>: \<open>sub\<close> occurs in \<open>s\<close> as a contiguous substring.\<close>

fun includesStr :: "string \<Rightarrow> string \<Rightarrow> bool" where
  "includesStr [] sub = (sub = [])"
| "includesStr (c # cs) sub = (prefix sub (c # cs) \<or> includesStr cs sub)"

text \<open>
  A method call on a value that is not a string raises TypeError (the value has no such
  method, or is undefined or null).
\<close>

definition callToLowerCase :: "jval \<Rightarrow> error + string" where
  "callToLowerCase v = (case v of JStr s \<Rightarrow> Inr (toLowerCase s) | _ \<Rightarrow> Inl TypeError)"

definition callTrim :: "jval \<Rightarrow> error + string" where
  "callTrim v = (case v of JStr s \<Rightarrow> Inr (trim s) | _ \<Rightarrow> Inl TypeError)"

subsection \<open>parseFloat\<close>

text \<open>
  \<^verbatim>\<open>parseFloat\<close> skips leading white space and reads the longest prefix that is a decimal
  literal: an optional sign, digits with an optional fraction (or a fraction alone), and an
  optional exponent. \<open>parseFloat\<close> is the finite result: \<open>None\<close> when the text has no
  such prefix. \<open>parseFloatNumber\<close> below is the result as a number: an infinity for the
  literal \<^verbatim>\<open>Infinity\<close> with its optional sign, NaN when there is neither.
\<close>

definition digitValue :: "char \<Rightarrow> nat" where
  "digitValue c =
     (case map_of (zip ''0123456789'' [0, 1, 2, 3, 4, 5, 6, 7, 8, 9]) c of
        Some d \<Rightarrow> d
      | None \<Rightarrow> 0)"

definition digitsValue :: "string \<Rightarrow> nat" where
  "digitsValue ds = foldl (\<lambda>a c. 10 * a + digitValue c) 0 ds"

definition exponentPart :: "string \<Rightarrow> int" where
  "exponentPart t =
     (case t of
        [] \<Rightarrow> 0
      | e # r \<Rightarrow>
          if e = CHR ''e'' \<or> e = CHR ''E'' then
            (case r of
               [] \<Rightarrow> 0
             | sg # r' \<Rightarrow>
                 if sg = CHR ''-'' then
                   (if takeWhile isDigit r' = [] then 0 else - int (digitsValue (takeWhile isDigit r')))
                 else if sg = CHR ''+'' then int (digitsValue (takeWhile isDigit r'))
                 else int (digitsValue (takeWhile isDigit r)))
          else 0)"

definition parseFloat :: "string \<Rightarrow> rat option" where
  "parseFloat s =
     (let t = dropWhile isSpace s;
          neg = (t \<noteq> [] \<and> hd t = CHR ''-'');
          t1 = (if t \<noteq> [] \<and> (hd t = CHR ''-'' \<or> hd t = CHR ''+'') then tl t else t);
          ip = takeWhile isDigit t1;
          t2 = dropWhile isDigit t1;
          dot = (t2 \<noteq> [] \<and> hd t2 = CHR ''.'');
          fp = (if dot then takeWhile isDigit (tl t2) else []);
          t3 = (if dot then dropWhile isDigit (tl t2) else t2);
          m = (of_nat (digitsValue (ip @ fp)) :: rat) / 10 ^ length fp;
          x = exponentPart t3;
          v = (if 0 \<le> x then m * 10 ^ nat x else m / 10 ^ nat (- x))
      in if ip = [] \<and> fp = [] then None else Some (if neg then - v else v))"

definition parseFloatNumber :: "string \<Rightarrow> number" where
  "parseFloatNumber s =
     (let t = dropWhile isSpace s in
      if prefix ''Infinity'' t \<or> prefix ''+Infinity'' t then PosInfinity
      else if prefix ''-Infinity'' t then NegInfinity
      else case parseFloat s of None \<Rightarrow> NaN | Some v \<Rightarrow> Num v)"

section \<open>Regular expressions\<close>

text \<open>
  The regular expressions of the program are values of \<open>rx\<close>. \<open>Lit\<close> is a literal matched
  as it is, \<open>LitI\<close> a literal under the \<^verbatim>\<open>i\<close> flag, \<open>Cls\<close> a character class, \<open>Opt\<close>,
  \<open>Star\<close> and \<open>Plus\<close> the greedy quantifiers \<^verbatim>\<open>?\<close>, \<^verbatim>\<open>*\<close> and \<^verbatim>\<open>+\<close>, and \<open>Grp\<close>
  the capturing group (every expression of the program has exactly one).

  \<open>rxm r (s, c)\<close> is the backtracking matcher of ECMAScript as a list of successes: all the
  ways \<open>r\<close> matches a prefix of \<open>s\<close>, in the order in which backtracking tries them, each
  with the rest of the input and the capture. A quantifier rejects an iteration that
  consumes nothing, as the RepeatMatcher of the language definition does.
\<close>

datatype rx =
    Lit string
  | LitI string
  | Cls "char \<Rightarrow> bool"
  | Seq rx rx
  | Alt rx rx
  | Opt rx
  | Star rx
  | Plus rx
  | Grp rx

type_synonym mstate = "string \<times> string option"

text \<open>
  Canonicalisation under the \<^verbatim>\<open>i\<close> flag (without the \<^verbatim>\<open>u\<close> flag): a-z are compared as
  A-Z; a character outside ASCII never canonicalises to an ASCII character, so it never
  equals a character of the ASCII literals of this program.
\<close>

definition canonicalize :: "char \<Rightarrow> char" where
  "canonicalize c =
     (case map_of (zip asciiLower asciiUpper) c of Some u \<Rightarrow> u | None \<Rightarrow> c)"

definition progress :: "mstate \<Rightarrow> mstate \<Rightarrow> bool" where
  "progress st st' = (length (fst st') < length (fst st))"

primrec star :: "nat \<Rightarrow> (mstate \<Rightarrow> mstate list) \<Rightarrow> mstate \<Rightarrow> mstate list" where
  "star 0 f st = [st]"
| "star (Suc n) f st =
     concat (map (\<lambda>st'. if progress st st' then star n f st' else []) (f st)) @ [st]"

primrec rxm :: "rx \<Rightarrow> mstate \<Rightarrow> mstate list" where
  "rxm (Lit w) st =
     (if prefix w (fst st) then [(drop (length w) (fst st), snd st)] else [])"
| "rxm (LitI w) st =
     (if length w \<le> length (fst st)
         \<and> map canonicalize (take (length w) (fst st)) = map canonicalize w
      then [(drop (length w) (fst st), snd st)] else [])"
| "rxm (Cls p) st =
     (case fst st of [] \<Rightarrow> [] | c # cs \<Rightarrow> if p c then [(cs, snd st)] else [])"
| "rxm (Seq a b) st = concat (map (rxm b) (rxm a st))"
| "rxm (Alt a b) st = rxm a st @ rxm b st"
| "rxm (Opt a) st = filter (progress st) (rxm a st) @ [st]"
| "rxm (Star a) st = star (length (fst st)) (rxm a) st"
| "rxm (Plus a) st = concat (map (\<lambda>st'. star (length (fst st')) (rxm a) st') (rxm a st))"
| "rxm (Grp a) st =
     map (\<lambda>st'. (fst st', Some (take (length (fst st) - length (fst st')) (fst st))))
       (rxm a st)"

text \<open>
  The words an expression matches, and the words its capturing group can hold, as sets:
  the reading of an expression as a regular language, against which the matcher is proved
  sound.
\<close>

primrec lang :: "rx \<Rightarrow> string set" where
  "lang (Lit w) = {w}"
| "lang (LitI w) = {v. map canonicalize v = map canonicalize w}"
| "lang (Cls p) = {[c] | c. p c}"
| "lang (Seq a b) = {u @ v | u v. u \<in> lang a \<and> v \<in> lang b}"
| "lang (Alt a b) = lang a \<union> lang b"
| "lang (Opt a) = insert [] (lang a)"
| "lang (Star a) = {concat ws | ws. set ws \<subseteq> lang a}"
| "lang (Plus a) = {concat ws | ws. ws \<noteq> [] \<and> set ws \<subseteq> lang a}"
| "lang (Grp a) = lang a"

primrec groups :: "rx \<Rightarrow> string set" where
  "groups (Lit w) = {}"
| "groups (LitI w) = {}"
| "groups (Cls p) = {}"
| "groups (Seq a b) = groups a \<union> groups b"
| "groups (Alt a b) = groups a \<union> groups b"
| "groups (Opt a) = groups a"
| "groups (Star a) = groups a"
| "groups (Plus a) = groups a"
| "groups (Grp a) = lang a \<union> groups a"

text \<open>\<open>setsGroup r\<close>: every match of \<open>r\<close> passes through its capturing group.\<close>

primrec setsGroup :: "rx \<Rightarrow> bool" where
  "setsGroup (Lit w) = False"
| "setsGroup (LitI w) = False"
| "setsGroup (Cls p) = False"
| "setsGroup (Seq a b) = (setsGroup a \<or> setsGroup b)"
| "setsGroup (Alt a b) = (setsGroup a \<and> setsGroup b)"
| "setsGroup (Opt a) = False"
| "setsGroup (Star a) = False"
| "setsGroup (Plus a) = setsGroup a"
| "setsGroup (Grp a) = True"

definition sound :: "string set \<Rightarrow> string set \<Rightarrow> (mstate \<Rightarrow> mstate list) \<Rightarrow> bool" where
  "sound L G f =
     (\<forall>s c rest cap. (rest, cap) \<in> set (f (s, c)) \<longrightarrow>
        (\<exists>w\<in>L. s = w @ rest) \<and> (cap = c \<or> (\<exists>g\<in>G. cap = Some g)))"

text \<open>
  \<^verbatim>\<open>s.match(r)\<close> for an expression without the \<^verbatim>\<open>g\<close> flag: the first match at the
  leftmost position where there is one, as the pair of the matched text and the capture
  (\<open>None\<close> for an undefined capture); \<open>None\<close> is JavaScript's null.
\<close>

fun regexMatch :: "rx \<Rightarrow> string \<Rightarrow> (string \<times> string option) option" where
  "regexMatch r [] =
     (case rxm r ([], None) of [] \<Rightarrow> None | st # _ \<Rightarrow> Some ([], snd st))"
| "regexMatch r (c # cs) =
     (case rxm r (c # cs, None) of
        [] \<Rightarrow> regexMatch r cs
      | st # _ \<Rightarrow> Some (take (length (c # cs) - length (fst st)) (c # cs), snd st))"

section \<open>searchService.js: the deterministic price constraint\<close>

datatype operator = LESS_THAN | GREATER_THAN | EQUAL

record price_constraint =
  operator :: operator
  "value" :: rat

text \<open>
  The three expressions share their tail: white space, an optional currency sign, white
  space, the number \<^verbatim>\<open>(\d+(?:\.\d{1,2})?)\<close> as the capture, white space and an optional
  unit; \<^verbatim>\<open>\d{1,2}\<close> is one digit and an optional second one. The class of the currency
  signs holds the dollar and the pound sign U+00A3; its third member, the euro sign U+20AC,
  is above U+00FF and has no character in the model.
\<close>

definition currency :: "char \<Rightarrow> bool" where
  "currency c = (c = CHR ''$'' \<or> c = CHR 0xA3)"

definition numberRx :: rx where
  "numberRx =
     Seq (Plus (Cls isDigit))
       (Opt (Seq (Lit ''.'') (Seq (Cls isDigit) (Opt (Cls isDigit)))))"

definition amountRx :: rx where
  "amountRx =
     Seq (Star (Cls isSpace))
      (Seq (Opt (Cls currency))
        (Seq (Star (Cls isSpace))
          (Seq (Grp numberRx)
            (Seq (Star (Cls isSpace))
              (Opt (Alt (LitI ''dollars'') (LitI ''bucks'')))))))"

definition lessThanRegex :: rx where
  "lessThanRegex =
     Seq (Alt (LitI ''under'') (Alt (LitI ''below'') (Alt (LitI ''less than'')
            (Seq (LitI ''max'') (Opt (LitI ''imum'')))))) amountRx"

definition greaterThanRegex :: rx where
  "greaterThanRegex =
     Seq (Alt (LitI ''above'') (Alt (LitI ''over'') (Alt (LitI ''more than'')
            (Alt (Seq (LitI ''min'') (Opt (LitI ''imum''))) (LitI ''greater than''))))) amountRx"

definition equalRegex :: rx where
  "equalRegex = Seq (Alt (LitI ''exactly'') (LitI ''for'')) amountRx"

text \<open>
  \<^verbatim>\<open>m && m[1]\<close>: the match exists and its capture is a non-empty string.
\<close>

definition captured :: "(string \<times> string option) option \<Rightarrow> string option" where
  "captured m =
     (case m of
        None \<Rightarrow> None
      | Some (_, None) \<Rightarrow> None
      | Some (_, Some g) \<Rightarrow> if g = [] then None else Some g)"

text \<open>
  The constraint of an operator and a capture: its value is \<^verbatim>\<open>parseFloat\<close> of the
  capture, a finite number. For a capture that \<^verbatim>\<open>parseFloat\<close> does not read as a finite
  number the model reports \<open>NotANumber\<close>, and the theorem of claim C10 shows that this
  never occurs.
\<close>

definition constraintOf :: "operator \<Rightarrow> string \<Rightarrow> error + price_constraint option" where
  "constraintOf opr g =
     (case parseFloat g of
        None \<Rightarrow> Inl NotANumber
      | Some v \<Rightarrow> Inr (Some \<lparr>operator = opr, value = v\<rparr>))"

definition extractPriceConstraint :: "jval \<Rightarrow> error + price_constraint option" where
  "extractPriceConstraint text =
     (if \<not> truthy text \<or> typeof text \<noteq> ''string'' then Inr None
      else
        case callToLowerCase text of
          Inl e \<Rightarrow> Inl e
        | Inr lowerText \<Rightarrow>
            (case captured (regexMatch lessThanRegex lowerText) of
               Some g \<Rightarrow> constraintOf LESS_THAN g
             | None \<Rightarrow>
                 (case captured (regexMatch greaterThanRegex lowerText) of
                    Some g \<Rightarrow> constraintOf GREATER_THAN g
                  | None \<Rightarrow>
                      (case captured (regexMatch equalRegex lowerText) of
                         Some g \<Rightarrow> constraintOf EQUAL g
                       | None \<Rightarrow> Inr None))))"

section \<open>catalog.js: the product catalog and its search\<close>

text \<open>
  Records keep the field names of the source behind a prefix that tells the records apart:
  \<open>p_\<close> for a product, \<open>f_\<close> for the filters of a search, \<open>i_\<close> for an entry of the
  shopping list, \<open>n_\<close> for an intent, \<open>a_\<close> for an advice result. An optional field
  (absent, undefined or null in the source) is an \<open>option\<close>.
\<close>

record product =
  p_id :: nat
  p_name :: string
  p_brand :: string
  p_size :: string
  p_price :: rat
  p_category :: string
  p_tags :: "string list"

definition CATALOG :: "product list" where
  "CATALOG =
    [\<lparr>p_id = 1, p_name = ''apples'', p_brand = ''FreshFarm'', p_size = ''1 kg'',
      p_price = 399 / 100, p_category = ''Fruits'', p_tags = [''fresh'', ''organic'']\<rparr>,
     \<lparr>p_id = 2, p_name = ''apples'', p_brand = ''OrganicVale'', p_size = ''1 kg'',
      p_price = 549 / 100, p_category = ''Fruits'', p_tags = [''organic'', ''premium'']\<rparr>,
     \<lparr>p_id = 3, p_name = ''bananas'', p_brand = ''TropicBest'', p_size = ''6 pack'',
      p_price = 199 / 100, p_category = ''Fruits'', p_tags = [''fresh'']\<rparr>,
     \<lparr>p_id = 4, p_name = ''oranges'', p_brand = ''SunGrove'', p_size = ''1 kg'',
      p_price = 299 / 100, p_category = ''Fruits'', p_tags = [''fresh'', ''vitamin c'']\<rparr>,
     \<lparr>p_id = 5, p_name = ''mango'', p_brand = ''TropicBest'', p_size = ''500 g'',
      p_price = 349 / 100, p_category = ''Fruits'', p_tags = [''tropical'', ''fresh'']\<rparr>,
     \<lparr>p_id = 6, p_name = ''strawberries'', p_brand = ''BerryFresh'', p_size = ''250 g'',
      p_price = 429 / 100, p_category = ''Fruits'', p_tags = [''fresh'', ''organic'']\<rparr>,
     \<lparr>p_id = 7, p_name = ''tomatoes'', p_brand = ''GardenPick'', p_size = ''500 g'',
      p_price = 149 / 100, p_category = ''Vegetables'', p_tags = [''fresh'']\<rparr>,
     \<lparr>p_id = 8, p_name = ''spinach'', p_brand = ''GreenLeaf'', p_size = ''200 g'',
      p_price = 219 / 100, p_category = ''Vegetables'', p_tags = [''organic'', ''fresh'']\<rparr>,
     \<lparr>p_id = 9, p_name = ''broccoli'', p_brand = ''FreshFields'', p_size = ''400 g'',
      p_price = 249 / 100, p_category = ''Vegetables'', p_tags = [''fresh'', ''organic'']\<rparr>,
     \<lparr>p_id = 10, p_name = ''onions'', p_brand = ''FarmSelect'', p_size = ''1 kg'',
      p_price = 99 / 100, p_category = ''Vegetables'', p_tags = [''fresh'']\<rparr>,
     \<lparr>p_id = 11, p_name = ''carrots'', p_brand = ''GreenLeaf'', p_size = ''500 g'',
      p_price = 129 / 100, p_category = ''Vegetables'', p_tags = [''organic'', ''fresh'']\<rparr>,
     \<lparr>p_id = 12, p_name = ''milk'', p_brand = ''DairyBest'', p_size = ''1 L'',
      p_price = 129 / 100, p_category = ''Dairy'', p_tags = [''whole milk'']\<rparr>,
     \<lparr>p_id = 13, p_name = ''milk'', p_brand = ''DairyBest'', p_size = ''2 L'',
      p_price = 209 / 100, p_category = ''Dairy'', p_tags = [''whole milk'', ''family'']\<rparr>,
     \<lparr>p_id = 14, p_name = ''almond milk'', p_brand = ''NutriBlend'', p_size = ''1 L'',
      p_price = 349 / 100, p_category = ''Dairy'', p_tags = [''vegan'', ''lactose free'', ''plant based'']\<rparr>,
     \<lparr>p_id = 15, p_name = ''oat milk'', p_brand = ''OatWave'', p_size = ''1 L'',
      p_price = 379 / 100, p_category = ''Dairy'', p_tags = [''vegan'', ''plant based'']\<rparr>,
     \<lparr>p_id = 16, p_name = ''butter'', p_brand = ''CreamyFarm'', p_size = ''250 g'',
      p_price = 279 / 100, p_category = ''Dairy'', p_tags = [''unsalted'']\<rparr>,
     \<lparr>p_id = 17, p_name = ''butter'', p_brand = ''LuxeCream'', p_size = ''500 g'',
      p_price = 499 / 100, p_category = ''Dairy'', p_tags = [''premium'', ''salted'']\<rparr>,
     \<lparr>p_id = 18, p_name = ''cheddar cheese'', p_brand = ''CheeseHouse'', p_size = ''200 g'',
      p_price = 399 / 100, p_category = ''Dairy'', p_tags = [''sharp'', ''aged'']\<rparr>,
     \<lparr>p_id = 19, p_name = ''greek yogurt'', p_brand = ''CreamyFarm'', p_size = ''500 g'',
      p_price = 299 / 100, p_category = ''Dairy'', p_tags = [''probiotic'', ''low fat'']\<rparr>,
     \<lparr>p_id = 20, p_name = ''toothpaste'', p_brand = ''BrightSmile'', p_size = ''100 ml'',
      p_price = 249 / 100, p_category = ''Personal Care'', p_tags = [''whitening'', ''mint'']\<rparr>,
     \<lparr>p_id = 21, p_name = ''toothpaste'', p_brand = ''DentaFresh'', p_size = ''150 ml'',
      p_price = 399 / 100, p_category = ''Personal Care'', p_tags = [''sensitive'', ''fluoride'']\<rparr>,
     \<lparr>p_id = 22, p_name = ''toothpaste'', p_brand = ''AquaClean'', p_size = ''200 ml'',
      p_price = 499 / 100, p_category = ''Personal Care'', p_tags = [''herbal'', ''natural'']\<rparr>,
     \<lparr>p_id = 23, p_name = ''shampoo'', p_brand = ''HairLux'', p_size = ''400 ml'',
      p_price = 599 / 100, p_category = ''Personal Care'', p_tags = [''moisturizing'', ''all hair types'']\<rparr>,
     \<lparr>p_id = 24, p_name = ''shampoo'', p_brand = ''NatureCare'', p_size = ''300 ml'',
      p_price = 449 / 100, p_category = ''Personal Care'', p_tags = [''organic'', ''sulfate free'']\<rparr>,
     \<lparr>p_id = 25, p_name = ''body wash'', p_brand = ''SkinSoft'', p_size = ''500 ml'',
      p_price = 399 / 100, p_category = ''Personal Care'', p_tags = [''moisturizing'', ''gentle'']\<rparr>,
     \<lparr>p_id = 26, p_name = ''deodorant'', p_brand = ''FreshGuard'', p_size = ''150 ml'',
      p_price = 349 / 100, p_category = ''Personal Care'', p_tags = [''antiperspirant'', ''24hr'']\<rparr>,
     \<lparr>p_id = 27, p_name = ''basmati rice'', p_brand = ''GrainMaster'', p_size = ''1 kg'',
      p_price = 299 / 100, p_category = ''Grains & Staples'', p_tags = [''long grain'', ''aromatic'']\<rparr>,
     \<lparr>p_id = 28, p_name = ''basmati rice'', p_brand = ''RoyalGrain'', p_size = ''5 kg'',
      p_price = 1299 / 100, p_category = ''Grains & Staples'', p_tags = [''premium'', ''long grain'']\<rparr>,
     \<lparr>p_id = 29, p_name = ''whole wheat bread'', p_brand = ''BakeWell'', p_size = ''400 g'',
      p_price = 199 / 100, p_category = ''Bakery'', p_tags = [''fiber rich'', ''healthy'']\<rparr>,
     \<lparr>p_id = 30, p_name = ''whole wheat bread'', p_brand = ''NatureBake'', p_size = ''600 g'',
      p_price = 349 / 100, p_category = ''Bakery'', p_tags = [''multigrain'', ''organic'']\<rparr>,
     \<lparr>p_id = 31, p_name = ''pasta'', p_brand = ''ItalianChoice'', p_size = ''500 g'',
      p_price = 149 / 100, p_category = ''Grains & Staples'', p_tags = [''whole wheat'']\<rparr>,
     \<lparr>p_id = 32, p_name = ''oats'', p_brand = ''MorningBest'', p_size = ''500 g'',
      p_price = 229 / 100, p_category = ''Grains & Staples'', p_tags = [''rolled oats'', ''fiber'']\<rparr>,
     \<lparr>p_id = 33, p_name = ''orange juice'', p_brand = ''SunPress'', p_size = ''1 L'',
      p_price = 299 / 100, p_category = ''Beverages'', p_tags = [''no sugar'', ''100% juice'']\<rparr>,
     \<lparr>p_id = 34, p_name = ''green tea'', p_brand = ''LeafZen'', p_size = ''25 bags'',
      p_price = 349 / 100, p_category = ''Beverages'', p_tags = [''antioxidant'', ''organic'']\<rparr>,
     \<lparr>p_id = 35, p_name = ''coffee'', p_brand = ''BrewCraft'', p_size = ''250 g'',
      p_price = 699 / 100, p_category = ''Beverages'', p_tags = [''arabica'', ''medium roast'']\<rparr>,
     \<lparr>p_id = 36, p_name = ''sparkling water'', p_brand = ''AquaFizz'', p_size = ''1 L'',
      p_price = 129 / 100, p_category = ''Beverages'', p_tags = [''zero calories'', ''sugar free'']\<rparr>,
     \<lparr>p_id = 37, p_name = ''dish soap'', p_brand = ''SparkleClean'', p_size = ''500 ml'',
      p_price = 199 / 100, p_category = ''Cleaning'', p_tags = [''grease cutting'', ''lemon'']\<rparr>,
     \<lparr>p_id = 38, p_name = ''laundry detergent'', p_brand = ''WashPro'', p_size = ''1 kg'',
      p_price = 599 / 100, p_category = ''Cleaning'', p_tags = [''concentrated'', ''fresh scent'']\<rparr>,
     \<lparr>p_id = 39, p_name = ''laundry detergent'', p_brand = ''EcoWash'', p_size = ''1.5 kg'',
      p_price = 849 / 100, p_category = ''Cleaning'', p_tags = [''eco friendly'', ''plant based'']\<rparr>]"

record filters =
  f_brand :: "string option"
  f_maxPrice :: "number option"
  f_minPrice :: "number option"
  f_size :: "string option"
  f_qualifier :: "string option"

text \<open>
  \<open>given x\<close> is the test \<^verbatim>\<open>if (filters.x)\<close> on a string field: the field is there and
  is not the empty string. The price bounds are tested against null and undefined only,
  so a bound that is NaN counts as set.
\<close>

definition given :: "string option \<Rightarrow> bool" where
  "given x = (case x of None \<Rightarrow> False | Some s \<Rightarrow> s \<noteq> [])"

text \<open>The callback of \<^verbatim>\<open>CATALOG.filter\<close>, with the early returns in the order of the source.\<close>

definition keeps :: "string \<Rightarrow> filters \<Rightarrow> product \<Rightarrow> bool" where
  "keeps q F product =
     (let nameMatch = (includesStr (p_name product) q \<or> includesStr q (p_name product)) in
      if \<not> nameMatch then False
      else if given (f_brand F)
              \<and> \<not> includesStr (toLowerCase (p_brand product)) (toLowerCase (the (f_brand F)))
      then False
      else if f_maxPrice F \<noteq> None \<and> jsGreater (p_price product) (the (f_maxPrice F)) then False
      else if f_minPrice F \<noteq> None \<and> jsLess (p_price product) (the (f_minPrice F)) then False
      else if given (f_size F)
              \<and> \<not> includesStr (toLowerCase (p_size product)) (toLowerCase (the (f_size F)))
      then False
      else if given (f_qualifier F)
              \<and> \<not> list_ex (\<lambda>t. includesStr t (toLowerCase (the (f_qualifier F)))) (p_tags product)
              \<and> \<not> includesStr (p_name product) (toLowerCase (the (f_qualifier F)))
      then False
      else True)"

text \<open>
  \<^verbatim>\<open>results.sort((a, b) => a.price - b.price)\<close>: \<^verbatim>\<open>Array.prototype.sort\<close> is a stable sort
  (ECMAScript 2019, and the required Node.js 18), here by the price; \<open>sort_key\<close> is the
  stable insertion sort of HOL.
\<close>

definition searchCatalog :: "string \<Rightarrow> filters \<Rightarrow> product list" where
  "searchCatalog query F =
     (let q = trim (toLowerCase query);
          results = filter (keeps q F) CATALOG
      in sort_key p_price results)"

section \<open>store.js: the shopping list\<close>

record item =
  i_id :: nat
  i_name :: string
  i_quantity :: rat
  i_category :: string
  i_addedAt :: string

record history =
  h_count :: nat
  h_lastAdded :: string

text \<open>
  The module state: the list, the next identifier and the purchase history (the own
  properties of the object \<^verbatim>\<open>purchaseHistory\<close>).
\<close>

record store =
  shoppingList :: "item list"
  nextId :: nat
  purchaseHistory :: "string \<Rightarrow> history option"

definition initialStore :: store where
  "initialStore = \<lparr>shoppingList = [], nextId = 1, purchaseHistory = (\<lambda>_. None)\<rparr>"

definition CATEGORY_MAP :: "(string \<times> string) list" where
  "CATEGORY_MAP =
    [(''apple'', ''Fruits''),
     (''banana'', ''Fruits''),
     (''mango'', ''Fruits''),
     (''orange'', ''Fruits''),
     (''grape'', ''Fruits''),
     (''strawberry'', ''Fruits''),
     (''watermelon'', ''Fruits''),
     (''pineapple'', ''Fruits''),
     (''lemon'', ''Fruits''),
     (''kiwi'', ''Fruits''),
     (''onion'', ''Vegetables''),
     (''tomato'', ''Vegetables''),
     (''potato'', ''Vegetables''),
     (''carrot'', ''Vegetables''),
     (''spinach'', ''Vegetables''),
     (''broccoli'', ''Vegetables''),
     (''cucumber'', ''Vegetables''),
     (''garlic'', ''Vegetables''),
     (''ginger'', ''Vegetables''),
     (''pepper'', ''Vegetables''),
     (''milk'', ''Dairy''),
     (''butter'', ''Dairy''),
     (''cheese'', ''Dairy''),
     (''yogurt'', ''Dairy''),
     (''cream'', ''Dairy''),
     (''paneer'', ''Dairy''),
     (''curd'', ''Dairy''),
     (''bread'', ''Bakery''),
     (''bun'', ''Bakery''),
     (''cake'', ''Bakery''),
     (''biscuit'', ''Bakery''),
     (''cookie'', ''Bakery''),
     (''juice'', ''Beverages''),
     (''water'', ''Beverages''),
     (''soda'', ''Beverages''),
     (''coffee'', ''Beverages''),
     (''tea'', ''Beverages''),
     (''cola'', ''Beverages''),
     (''rice'', ''Grains & Staples''),
     (''wheat'', ''Grains & Staples''),
     (''flour'', ''Grains & Staples''),
     (''oats'', ''Grains & Staples''),
     (''pasta'', ''Grains & Staples''),
     (''noodles'', ''Grains & Staples''),
     (''dal'', ''Grains & Staples''),
     (''lentil'', ''Grains & Staples''),
     (''toothpaste'', ''Personal Care''),
     (''shampoo'', ''Personal Care''),
     (''soap'', ''Personal Care''),
     (''lotion'', ''Personal Care''),
     (''deodorant'', ''Personal Care''),
     (''razor'', ''Personal Care''),
     (''detergent'', ''Cleaning''),
     (''bleach'', ''Cleaning''),
     (''mop'', ''Cleaning''),
     (''sponge'', ''Cleaning''),
     (''dishwash'', ''Cleaning'')]"

definition categorize :: "string \<Rightarrow> string" where
  "categorize name =
     (case find (\<lambda>(keyword, category). includesStr name keyword) CATEGORY_MAP of
        Some (keyword, category) \<Rightarrow> category
      | None \<Rightarrow> ''General'')"

text \<open>
  A lower-case key that an object literal inherits from \<^verbatim>\<open>Object.prototype\<close>: reading it
  gives a truthy value although the object has no such own property.
\<close>

definition inheritedKey :: "string \<Rightarrow> bool" where
  "inheritedKey k = (k = ''constructor'' \<or> k = ''__proto__'')"

text \<open>
  Step 1 of \<^verbatim>\<open>addItem\<close>. For an inherited key the entry read is not an own property, the
  counter is written on the inherited object and the own properties stay as they are.
\<close>

definition trackHistory ::
  "string \<Rightarrow> string \<Rightarrow> (string \<Rightarrow> history option) \<Rightarrow> (string \<Rightarrow> history option)" where
  "trackHistory normalizedName now h =
     (if inheritedKey normalizedName then h
      else
        let c = (case h normalizedName of None \<Rightarrow> 0 | Some e \<Rightarrow> h_count e)
        in h(normalizedName \<mapsto> \<lparr>h_count = c + 1, h_lastAdded = now\<rparr>))"

fun updateFirst :: "('a \<Rightarrow> bool) \<Rightarrow> ('a \<Rightarrow> 'a) \<Rightarrow> 'a list \<Rightarrow> 'a list" where
  "updateFirst P f [] = []"
| "updateFirst P f (x # xs) = (if P x then f x # xs else x # updateFirst P f xs)"

text \<open>
  \<^verbatim>\<open>addItem(name, quantity = 1, category = null)\<close>; \<open>now\<close> is the time stamp
  \<^verbatim>\<open>new Date().toISOString()\<close>. The entry found is updated in place, so the list holds
  the updated entry and the same entry is returned.
\<close>

definition addItem ::
  "string \<Rightarrow> rat option \<Rightarrow> string option \<Rightarrow> string \<Rightarrow> store \<Rightarrow> item \<times> store" where
  "addItem name quantity category now s =
     (let normalizedName = trim (toLowerCase name);
          q = (case quantity of None \<Rightarrow> 1 | Some n \<Rightarrow> n);
          h = trackHistory normalizedName now (purchaseHistory s)
      in case find (\<lambda>i. i_name i = normalizedName) (shoppingList s) of
           Some existing \<Rightarrow>
             (existing\<lparr>i_quantity := i_quantity existing + q\<rparr>,
              s\<lparr>shoppingList :=
                   updateFirst (\<lambda>i. i_name i = normalizedName)
                     (\<lambda>i. i\<lparr>i_quantity := i_quantity i + q\<rparr>) (shoppingList s),
                 purchaseHistory := h\<rparr>)
         | None \<Rightarrow>
             (let newItem =
                    \<lparr>i_id = nextId s, i_name = normalizedName, i_quantity = q,
                     i_category = (if given category then the category
                                   else categorize normalizedName),
                     i_addedAt = now\<rparr>
              in (newItem,
                  s\<lparr>shoppingList := shoppingList s @ [newItem],
                    nextId := nextId s + 1,
                    purchaseHistory := h\<rparr>)))"

definition removeItem :: "string \<Rightarrow> store \<Rightarrow> item option \<times> store" where
  "removeItem name s =
     (let normalizedName = trim (toLowerCase name)
      in case find (\<lambda>i. i_name i = normalizedName) (shoppingList s) of
           None \<Rightarrow> (None, s)
         | Some removed \<Rightarrow> (Some removed, s\<lparr>shoppingList := remove1 removed (shoppingList s)\<rparr>))"

definition searchItems :: "string \<Rightarrow> store \<Rightarrow> item list" where
  "searchItems query s =
     (let q = trim (toLowerCase query)
      in filter (\<lambda>i. includesStr (i_name i) q) (shoppingList s))"

definition getList :: "store \<Rightarrow> item list" where
  "getList s = shoppingList s"

definition clearList :: "store \<Rightarrow> store" where
  "clearList s = s\<lparr>shoppingList := [], nextId := 1\<rparr>"

section \<open>suggestionService.js: suggestions and the advice classifier\<close>

definition FREQUENTLY_USED :: "(string \<times> string) list" where
  "FREQUENTLY_USED =
    [(''milk'', ''Dairy''),
     (''bread'', ''Bakery''),
     (''eggs'', ''General''),
     (''rice'', ''Grains & Staples''),
     (''onion'', ''Vegetables''),
     (''tomato'', ''Vegetables''),
     (''banana'', ''Fruits''),
     (''butter'', ''Dairy''),
     (''sugar'', ''Grains & Staples''),
     (''salt'', ''Grains & Staples''),
     (''cooking oil'', ''General''),
     (''toothpaste'', ''Personal Care'')]"

definition SUBSTITUTES :: "(string \<times> string list) list" where
  "SUBSTITUTES =
    [(''milk'', [''almond milk'', ''oat milk'', ''soy milk'']),
     (''butter'', [''margarine'', ''coconut oil'']),
     (''sugar'', [''honey'', ''jaggery'', ''stevia'']),
     (''bread'', [''whole wheat bread'', ''multigrain bread'']),
     (''rice'', [''brown rice'', ''quinoa'']),
     (''flour'', [''almond flour'', ''oat flour'']),
     (''cola'', [''sparkling water'', ''lemon soda'']),
     (''cheese'', [''tofu'', ''paneer'']),
     (''cream'', [''coconut cream'', ''yogurt'']),
     (''pasta'', [''whole wheat pasta'', ''zucchini noodles''])]"

definition SEASONAL_BY_MONTH :: "(nat \<times> string list) list" where
  "SEASONAL_BY_MONTH =
    [(0, [''peas'', ''carrot'', ''strawberry'']),
     (1, [''mango'', ''strawberry'', ''beet'']),
     (2, [''watermelon'', ''mango'', ''cucumber'']),
     (3, [''watermelon'', ''lemon'', ''mango'']),
     (4, [''watermelon'', ''lychee'', ''peach'']),
     (5, [''cherry'', ''plum'', ''corn'']),
     (6, [''peach'', ''blueberry'', ''zucchini'']),
     (7, [''peach'', ''tomato'', ''sweet corn'']),
     (8, [''apple'', ''grape'', ''spinach'']),
     (9, [''apple'', ''pear'', ''pumpkin'']),
     (10, [''orange'', ''sweet potato'', ''pomegranate'']),
     (11, [''orange'', ''pea'', ''carrot''])]"

definition HEALTHY_OPTIONS :: "string list" where
  "HEALTHY_OPTIONS =
    [''spinach'', ''broccoli'', ''quinoa'', ''kale'',
     ''almonds'', ''walnuts'', ''greek yogurt'', ''lentils'',
     ''sweet potato'', ''blueberries'', ''avocado'', ''chia seeds'']"

definition getFrequentItems :: "nat \<Rightarrow> (string \<times> string) list" where
  "getFrequentItems limit = take limit FREQUENTLY_USED"

text \<open>
  What a look-up of substitutes gives: a list of names, or, for a key inherited from
  \<^verbatim>\<open>Object.prototype\<close>, the inherited value (the function \<^verbatim>\<open>Object\<close>, of length 1, for
  \<^verbatim>\<open>constructor\<close>; the prototype object, without a length, for \<^verbatim>\<open>__proto__\<close>).
\<close>

datatype names = Names "string list" | ObjectConstructor | ObjectPrototype

definition getSubstitutes :: "string \<Rightarrow> names" where
  "getSubstitutes itemName =
     (let key = trim (toLowerCase itemName) in
      case map_of SUBSTITUTES key of
        Some subs \<Rightarrow> Names subs
      | None \<Rightarrow>
          if key = ''constructor'' then ObjectConstructor
          else if key = ''__proto__'' then ObjectPrototype
          else
            (case find (\<lambda>(k, subs). includesStr key k \<or> includesStr k key) SUBSTITUTES of
               Some (k, subs) \<Rightarrow> Names subs
             | None \<Rightarrow> Names []))"

text \<open>\<^verbatim>\<open>subs && subs.length > 0\<close>\<close>

fun nonEmpty :: "names \<Rightarrow> bool" where
  "nonEmpty (Names l) = (l \<noteq> [])"
| "nonEmpty ObjectConstructor = True"
| "nonEmpty ObjectPrototype = False"

text \<open>\<^verbatim>\<open>getSeasonalItems\<close>, with the month \<^verbatim>\<open>new Date().getMonth()\<close> as an argument.\<close>

definition getSeasonalItems :: "nat \<Rightarrow> string list" where
  "getSeasonalItems month =
     (case map_of SEASONAL_BY_MONTH month of Some l \<Rightarrow> l | None \<Rightarrow> [])"

datatype advice_type = SUBSTITUTE | HISTORY | SEASONAL | HEALTHY

text \<open>The five message texts; the first one quotes the item asked about.\<close>

datatype advice_message =
    InsteadOfMessage string
  | RunningLowMessage
  | SeasonalMessage
  | HealthyMessage
  | BrainstormMessage

record advice =
  a_type :: advice_type
  a_category :: string
  a_suggestions :: names
  a_message :: advice_message

text \<open>
  What \<^verbatim>\<open>handleAdviceQuestion\<close> reads from outside: the month, the answer of
  \<^verbatim>\<open>getRunningLowItems()\<close> (the empty list also when the call fails, which the source
  catches) and the random order of \<^verbatim>\<open>sort(() => 0.5 - Math.random())\<close>.
\<close>

record advice_env =
  month :: nat
  historyItems :: "string list"
  shuffle :: "string list \<Rightarrow> string list"

definition isLetterOrSpace :: "char \<Rightarrow> bool" where
  "isLetterOrSpace c = (c \<in> set asciiLower \<or> isSpace c)"

definition substituteRegex :: rx where
  "substituteRegex =
     Seq (Alt (Lit ''substitute'') (Alt (Lit ''alternative'') (Lit ''instead'')))
      (Seq (Plus (Cls isSpace))
        (Seq (Opt (Alt (Lit ''for'') (Lit ''of'')))
          (Seq (Star (Cls isSpace))
            (Grp (Plus (Cls isLetterOrSpace))))))"

definition anyIncluded :: "string list \<Rightarrow> string \<Rightarrow> bool" where
  "anyIncluded ks t = list_ex (\<lambda>k. includesStr t k) ks"

text \<open>Branch 1 of \<^verbatim>\<open>handleAdviceQuestion\<close>: \<open>Inr None\<close> when the branch does not return.\<close>

definition substituteAdvice :: "string \<Rightarrow> error + advice option" where
  "substituteAdvice t =
     (case regexMatch substituteRegex t of
        None \<Rightarrow> Inr None
      | Some (whole, g) \<Rightarrow>
          (case callTrim (case g of None \<Rightarrow> JUndefined | Some w \<Rightarrow> JStr w) of
             Inl e \<Rightarrow> Inl e
           | Inr trimmed \<Rightarrow>
               (let targetItem = filter (\<lambda>c. c \<noteq> CHR ''?'' \<and> c \<noteq> CHR ''!'' \<and> c \<noteq> CHR ''.'') trimmed;
                    subs = getSubstitutes targetItem
                in if nonEmpty subs
                   then Inr (Some \<lparr>a_type = SUBSTITUTE, a_category = ''substitute'',
                                   a_suggestions = subs,
                                   a_message = InsteadOfMessage targetItem\<rparr>)
                   else Inr None)))"

definition handleAdviceQuestion :: "advice_env \<Rightarrow> string \<Rightarrow> error + advice option" where
  "handleAdviceQuestion env text =
     (let t = toLowerCase text in
      case substituteAdvice t of
        Inl e \<Rightarrow> Inl e
      | Inr (Some a) \<Rightarrow> Inr (Some a)
      | Inr None \<Rightarrow>
          (let isAdvice = anyIncluded [''suggest'', ''recommend'', ''what should'', ''any ideas'',
                                       ''what to buy'', ''what do i need''] t;
               isBestSeason = anyIncluded [''best'', ''season''] t;
               isHealthy = anyIncluded [''healthy'', ''diet'', ''nutritious''] t
           in
             if \<not> isAdvice \<and> \<not> isBestSeason \<and> \<not> isHealthy then Inr None
             else if isAdvice \<and> \<not> isBestSeason \<and> \<not> isHealthy \<and> historyItems env \<noteq> []
             then Inr (Some \<lparr>a_type = HISTORY, a_category = ''history'',
                             a_suggestions = Names (take 3 (shuffle env (historyItems env))),
                             a_message = RunningLowMessage\<rparr>)
             else if isBestSeason \<or> includesStr t ''season'' \<or> includesStr t ''fruit''
             then Inr (Some \<lparr>a_type = SEASONAL, a_category = ''seasonal'',
                             a_suggestions = Names (getSeasonalItems (month env)),
                             a_message = SeasonalMessage\<rparr>)
             else if isHealthy
             then Inr (Some \<lparr>a_type = HEALTHY, a_category = ''healthy'',
                             a_suggestions = Names (take 3 (shuffle env HEALTHY_OPTIONS)),
                             a_message = HealthyMessage\<rparr>)
             else Inr (Some \<lparr>a_type = HISTORY, a_category = ''general'',
                             a_suggestions = Names (map fst (getFrequentItems 3)),
                             a_message = BrainstormMessage\<rparr>)))"

section \<open>translationService.js: the translation gateway\<close>

definition TRANSLATION_MODELS :: "(string \<times> string) list" where
  "TRANSLATION_MODELS =
    [(''hi'', ''Helsinki-NLP/opus-mt-hi-en''),
     (''es'', ''Helsinki-NLP/opus-mt-es-en''),
     (''fr'', ''Helsinki-NLP/opus-mt-fr-en''),
     (''de'', ''Helsinki-NLP/opus-mt-de-en''),
     (''ar'', ''Helsinki-NLP/opus-mt-ar-en'')]"

text \<open>\<^verbatim>\<open>langTag.split("-")[0]\<close>: the text before the first hyphen.\<close>

definition splitFirst :: "string \<Rightarrow> string" where
  "splitFirst s = takeWhile (\<lambda>c. c \<noteq> CHR ''-'') s"

definition getLangPrefix :: "jval \<Rightarrow> error + string" where
  "getLangPrefix langTag =
     (if \<not> truthy langTag then Inr ''en''
      else case langTag of
             JStr s \<Rightarrow> Inr (toLowerCase (splitFirst s))
           | _ \<Rightarrow> Inl TypeError)"

text \<open>
  \<^verbatim>\<open>TRANSLATION_MODELS[langCode]\<close> as the text that the URL template inserts: the model
  registered for the code, or the inherited value for a key of \<^verbatim>\<open>Object.prototype\<close>;
  \<open>None\<close> is undefined.
\<close>

definition modelFor :: "string \<Rightarrow> string option" where
  "modelFor langCode =
     (case map_of TRANSLATION_MODELS langCode of
        Some modelId \<Rightarrow> Some modelId
      | None \<Rightarrow>
          if langCode = ''constructor'' then Some ''function Object() { [native code] }''
          else if langCode = ''__proto__'' then Some ''[object Object]''
          else None)"

text \<open>
  The outcome of \<^verbatim>\<open>axios.post\<close>: the call fails (time-out, network error, status outside
  2xx) or answers with the decoded body \<^verbatim>\<open>response.data\<close>.
\<close>

datatype http_outcome = HttpFailed string | HttpOk jval

text \<open>
  Reading a property of a value that is neither undefined nor null: an own property of an
  object; the other values have none of the properties read here. The pairs of \<open>JObj\<close>
  are the own properties, each key once.
\<close>

fun getProp :: "jval \<Rightarrow> string \<Rightarrow> jval" where
  "getProp (JObj members) k = (case map_of members k of None \<Rightarrow> JUndefined | Some v \<Rightarrow> v)"
| "getProp _ k = JUndefined"

text \<open>\<^verbatim>\<open>result[0]?.translation_text\<close> for an array \<open>result\<close>.\<close>

definition firstTranslation :: "jval list \<Rightarrow> jval" where
  "firstTranslation result =
     (case result of
        [] \<Rightarrow> JUndefined
      | x # _ \<Rightarrow> if x = JUndefined \<or> x = JNull then JUndefined else getProp x ''translation_text'')"

definition translationUrl :: "string \<Rightarrow> string" where
  "translationUrl modelId = ''https://router.huggingface.co/hf-inference/models/'' @ modelId"

text \<open>
  \<^verbatim>\<open>translateToEnglish(text, langTag)\<close>; \<open>apiKey\<close> is \<^verbatim>\<open>process.env.HF_API_KEY\<close> and
  \<open>post url inputs\<close> the outcome of the call of the translation backend. The result is the
  pair of \<^verbatim>\<open>translatedText\<close> and \<^verbatim>\<open>wasTranslated\<close>.
\<close>

definition translateToEnglish ::
  "string \<Rightarrow> jval \<Rightarrow> string option \<Rightarrow> (string \<Rightarrow> string \<Rightarrow> http_outcome) \<Rightarrow> error + (string \<times> bool)" where
  "translateToEnglish text langTag apiKey post =
     (case getLangPrefix langTag of
        Inl e \<Rightarrow> Inl e
      | Inr langCode \<Rightarrow>
          if langCode = ''en'' \<or> \<not> truthy langTag then Inr (text, False)
          else
            (case modelFor langCode of
               None \<Rightarrow> Inr (text, False)
             | Some modelId \<Rightarrow>
                 if \<not> given apiKey then Inr (text, False)
                 else
                   (case post (translationUrl modelId) text of
                      HttpFailed msg \<Rightarrow> Inr (text, False)
                    | HttpOk (JArr result) \<Rightarrow>
                        if truthy (firstTranslation result) then
                          (case callTrim (firstTranslation result) of
                             Inr translated \<Rightarrow> Inr (translated, True)
                           | Inl e \<Rightarrow> Inr (text, False))
                        else Inr (text, False)
                    | HttpOk _ \<Rightarrow> Inr (text, False))))"

section \<open>intentParser.js: the structured intent extractor\<close>

datatype intent_kind = ADD_ITEM | REMOVE_ITEM | SEARCH_ITEM | UNKNOWN

text \<open>
  An intent. \<open>n_intent\<close>, \<open>n_item\<close>, \<open>n_quantity\<close> and \<open>n_language\<close> are set by
  \<^verbatim>\<open>extractIntentViaLLM\<close> and \<open>n_source\<close> by \<^verbatim>\<open>parseIntent\<close>; the remaining fields are
  read by the route of \<^verbatim>\<open>/api/process\<close> and set by nothing in the parser.
\<close>

record intent =
  n_intent :: intent_kind
  n_item :: "string option"
  n_quantity :: "rat option"
  n_language :: jval
  n_source :: "string option"
  n_category :: "string option"
  n_brand :: "string option"
  n_maxPrice :: "number option"
  n_minPrice :: "number option"
  n_size :: "string option"
  n_qualifier :: "string option"

text \<open>\<^verbatim>\<open>/\{[\s\S]*\}/\<close>\<close>

definition jsonRegex :: rx where
  "jsonRegex = Seq (Lit ''{'') (Seq (Star (Cls (\<lambda>c. True))) (Lit ''}''))"

text \<open>\<^verbatim>\<open>validIntents.includes(parsed.intent)\<close>, with the kind for a tag that is valid.\<close>

definition validIntent :: "jval \<Rightarrow> intent_kind option" where
  "validIntent v =
     (if v = JStr ''ADD_ITEM'' then Some ADD_ITEM
      else if v = JStr ''REMOVE_ITEM'' then Some REMOVE_ITEM
      else if v = JStr ''SEARCH_ITEM'' then Some SEARCH_ITEM
      else if v = JStr ''UNKNOWN'' then Some UNKNOWN
      else None)"

text \<open>\<^verbatim>\<open>parsed.item ? parsed.item.toLowerCase().trim() : null\<close>\<close>

definition normalizedItem :: "jval \<Rightarrow> error + string option" where
  "normalizedItem v =
     (if truthy v then
        (case callToLowerCase v of
           Inl e \<Rightarrow> Inl e
         | Inr l \<Rightarrow> (case callTrim (JStr l) of Inl e \<Rightarrow> Inl e | Inr t \<Rightarrow> Inr (Some t)))
      else Inr None)"

text \<open>
  \<^verbatim>\<open>extractIntentViaLLM\<close>. \<open>reply\<close> is what \<^verbatim>\<open>await query(buildPrompt(userText))\<close>
  gives: the error it throws or the text of the model. \<open>decode\<close> is \<^verbatim>\<open>JSON.parse\<close> of the
  runtime on a text that begins with a brace: \<open>None\<close> when it throws SyntaxError, else the
  own properties of the object decoded.
\<close>

definition extractIntentViaLLM ::
  "(string \<Rightarrow> (string \<times> jval) list option) \<Rightarrow> error + string \<Rightarrow> error + intent" where
  "extractIntentViaLLM decode reply =
     (case reply of
        Inl e \<Rightarrow> Inl e
      | Inr raw \<Rightarrow>
          (case regexMatch jsonRegex raw of
             None \<Rightarrow> Inl LlmNoJson
           | Some (jsonMatch, g) \<Rightarrow>
               (case decode jsonMatch of
                  None \<Rightarrow> Inl SyntaxError
                | Some members \<Rightarrow>
                    (let parsed = JObj members in
                     case validIntent (getProp parsed ''intent'') of
                       None \<Rightarrow> Inl LlmInvalidIntent
                     | Some k \<Rightarrow>
                         if k \<noteq> UNKNOWN
                            \<and> (\<not> truthy (getProp parsed ''item'')
                                \<or> typeof (getProp parsed ''item'') \<noteq> ''string''
                                \<or> callTrim (getProp parsed ''item'') = Inr [])
                         then Inl LlmInvalidItem
                         else
                           (case normalizedItem (getProp parsed ''item'') of
                              Inl e \<Rightarrow> Inl e
                            | Inr it \<Rightarrow>
                                Inr \<lparr>n_intent = k,
                                     n_item = it,
                                     n_quantity = (case getProp parsed ''quantity'' of
                                                     JNum n \<Rightarrow> Some n | _ \<Rightarrow> None),
                                     n_language = (if truthy (getProp parsed ''language'')
                                                   then getProp parsed ''language''
                                                   else JStr ''en''),
                                     n_source = None, n_category = None, n_brand = None,
                                     n_maxPrice = None, n_minPrice = None, n_size = None,
                                     n_qualifier = None\<rparr>)))))"

definition parseIntent ::
  "(string \<Rightarrow> (string \<times> jval) list option) \<Rightarrow> error + string \<Rightarrow> error + intent" where
  "parseIntent decode reply =
     (case extractIntentViaLLM decode reply of
        Inl e \<Rightarrow> Inl e
      | Inr result \<Rightarrow> Inr (result\<lparr>n_source := Some ''llm''\<rparr>))"

text \<open>
  The reading of the specification, for comparison with \<open>jsonRegex\<close>: the first
  balanced span of a text begins at its first opening brace and ends at the closing brace
  that brings the nesting back to zero. \<open>closeAt d s\<close> is the prefix of \<open>s\<close> up to that
  brace, at nesting depth \<open>d\<close>.
\<close>

fun closeAt :: "nat \<Rightarrow> string \<Rightarrow> string option" where
  "closeAt d [] = None"
| "closeAt d (c # cs) =
     (if c = CHR ''{'' then map_option ((#) c) (closeAt (Suc d) cs)
      else if c = CHR ''}'' then
        (case d of
           0 \<Rightarrow> None
         | Suc 0 \<Rightarrow> Some [c]
         | Suc (Suc e) \<Rightarrow> map_option ((#) c) (closeAt (Suc e) cs))
      else map_option ((#) c) (closeAt d cs))"

definition specFirstBalancedSpan :: "string \<Rightarrow> string option" where
  "specFirstBalancedSpan raw = closeAt 0 (dropWhile (\<lambda>c. c \<noteq> CHR ''{'') raw)"

section \<open>nlpRoutes.js: applying an intent\<close>

text \<open>
  The check for a generic category, once on the text and once on the item of a search: the
  category and its fixed list of items.
\<close>

definition genericCategory :: "string \<Rightarrow> (string \<times> string list) option" where
  "genericCategory q =
     (let isStaples = (includesStr q ''basic'' \<or> includesStr q ''staple'');
          isHousehold = (includesStr q ''household'' \<or> includesStr q ''cleaning'');
          isEssential = (includesStr q ''daily need'' \<or> includesStr q ''essential''
                         \<or> includesStr q ''groceries'' \<or> includesStr q ''grocery''
                         \<or> includesStr q ''food'')
      in if isStaples then Some (''staples'', [''rice'', ''flour'', ''sugar'', ''salt'', ''cooking oil''])
         else if isHousehold
         then Some (''household'', [''detergent'', ''soap'', ''toothpaste'', ''toilet paper''])
         else if isEssential
         then Some (''essentials'', [''rice'', ''milk'', ''eggs'', ''bread'', ''cooking oil''])
         else None)"

text \<open>
  The filters built from the intent: \<^verbatim>\<open>intent.brand || null\<close> for the strings,
  \<^verbatim>\<open>intent.maxPrice != null ? intent.maxPrice : null\<close> for the bounds.
\<close>

definition intentFilters :: "intent \<Rightarrow> filters" where
  "intentFilters intent =
     \<lparr>f_brand = (if given (n_brand intent) then n_brand intent else None),
      f_maxPrice = n_maxPrice intent,
      f_minPrice = n_minPrice intent,
      f_size = (if given (n_size intent) then n_size intent else None),
      f_qualifier = (if given (n_qualifier intent) then n_qualifier intent else None)\<rparr>"

text \<open>The override of the bounds by the deterministic price constraint.\<close>

definition overrideFilters :: "price_constraint option \<Rightarrow> filters \<Rightarrow> filters" where
  "overrideFilters priceConstraint F =
     (case priceConstraint of
        None \<Rightarrow> F
      | Some pc \<Rightarrow>
          (let F1 = (if operator pc = LESS_THAN then F\<lparr>f_maxPrice := Some (Num (value pc))\<rparr>
                     else F);
               F2 = (if operator pc = GREATER_THAN then F1\<lparr>f_minPrice := Some (Num (value pc))\<rparr>
                     else F1)
           in if operator pc = EQUAL
              then F2\<lparr>f_maxPrice := Some (Num (value pc)), f_minPrice := Some (Num (value pc))\<rparr>
              else F2))"

text \<open>
  The answers of \<^verbatim>\<open>POST /api/process\<close> after the intent is parsed, with the fields that
  decide them: the advice; the generic category and its items; the fallback for a text not
  understood; the quantity and the entry of an addition; the entry removed, if any; for a
  catalog search the price constraint, the filters passed to \<^verbatim>\<open>searchCatalog\<close>, its
  results and the matches in the list; and the answer of a switch that ran no case.
\<close>

datatype response =
    AdviceResponse advice
  | GenericSearch string "string list"
  | NotUnderstood
  | Added rat item
  | Removed "item option"
  | CatalogSearch "price_constraint option" filters "product list" "item list"
  | NoAction

text \<open>
  Steps 2 (after parsing) and 3 of the route: \<open>intent\<close> is the parsed intent,
  \<open>englishText\<close> the text after translation, \<open>s\<close> the store.
\<close>

definition applyIntent ::
  "advice_env \<Rightarrow> string \<Rightarrow> intent \<Rightarrow> string \<Rightarrow> store \<Rightarrow> error + (response \<times> store)" where
  "applyIntent env now intent englishText s =
     (if n_intent intent = UNKNOWN \<or> \<not> given (n_item intent) then
        (case handleAdviceQuestion env englishText of
           Inl e \<Rightarrow> Inl e
         | Inr (Some adviceMatch) \<Rightarrow> Inr (AdviceResponse adviceMatch, s)
         | Inr None \<Rightarrow>
             (case genericCategory (toLowerCase englishText) of
                Some (category, results) \<Rightarrow> Inr (GenericSearch category results, s)
              | None \<Rightarrow> Inr (NotUnderstood, s)))
      else
        (case n_intent intent of
           ADD_ITEM \<Rightarrow>
             (let qty = (case n_quantity intent of
                           None \<Rightarrow> 1
                         | Some n \<Rightarrow> if n \<noteq> 0 then n else 1);
                  (affectedItem, s') = addItem (the (n_item intent)) (Some qty) (n_category intent) now s
              in Inr (Added qty affectedItem, s'))
         | REMOVE_ITEM \<Rightarrow>
             (let (affectedItem, s') = removeItem (the (n_item intent)) s
              in Inr (Removed affectedItem, s'))
         | SEARCH_ITEM \<Rightarrow>
             (case genericCategory (toLowerCase (the (n_item intent))) of
                Some (category, results) \<Rightarrow> Inr (GenericSearch category results, s)
              | None \<Rightarrow>
                  (case extractPriceConstraint (JStr englishText) of
                     Inl e \<Rightarrow> Inl e
                   | Inr priceConstraint \<Rightarrow>
                       (let F = overrideFilters priceConstraint (intentFilters intent)
                        in Inr (CatalogSearch priceConstraint F
                                  (searchCatalog (the (n_item intent)) F)
                                  (searchItems (the (n_item intent)) s), s))))
         | UNKNOWN \<Rightarrow> Inr (NoAction, s)))"

text \<open>
  \<^verbatim>\<open>GET /api/search\<close>: the query parameters are texts or absent; \<open>None\<close> is the answer 400
  for a missing or empty \<^verbatim>\<open>q\<close>, else the filters built and the results (\<open>sizeParam\<close>
  is the parameter \<^verbatim>\<open>size\<close>). A bound is
  \<^verbatim>\<open>maxPrice ? parseFloat(maxPrice) : null\<close>: a text that is no number gives the bound NaN.
\<close>

definition searchRoute ::
  "string option \<Rightarrow> string option \<Rightarrow> string option \<Rightarrow> string option \<Rightarrow> string option
     \<Rightarrow> string option \<Rightarrow> (filters \<times> product list) option" where
  "searchRoute q brand maxPrice minPrice sizeParam qualifier =
     (if \<not> given q then None
      else
        let F = \<lparr>f_brand = (if given brand then brand else None),
                 f_maxPrice = (if given maxPrice then Some (parseFloatNumber (the maxPrice)) else None),
                 f_minPrice = (if given minPrice then Some (parseFloatNumber (the minPrice)) else None),
                 f_size = (if given sizeParam then sizeParam else None),
                 f_qualifier = (if given qualifier then qualifier else None)\<rparr>
        in Some (F, searchCatalog (the q) F))"

text \<open>
  Step 1 of \<^verbatim>\<open>POST /api/process\<close>: \<open>bodyLang\<close> is \<^verbatim>\<open>req.body.lang\<close> as it comes, with the
  default \<^verbatim>\<open>en-US\<close> when it is undefined; an error that \<^verbatim>\<open>translateToEnglish\<close> raises is
  caught and the route goes on with the original text.
\<close>

definition translationStep ::
  "string \<Rightarrow> jval \<Rightarrow> string option \<Rightarrow> (string \<Rightarrow> string \<Rightarrow> http_outcome) \<Rightarrow> string \<times> bool" where
  "translationStep text bodyLang apiKey post =
     (case translateToEnglish (trim text)
             (if bodyLang = JUndefined then JStr ''en-US'' else bodyLang) apiKey post of
        Inl translErr \<Rightarrow> (text, False)
      | Inr result \<Rightarrow> result)"

section \<open>Sample inputs\<close>

text \<open>Concrete inputs on which the theorems below are evaluated.\<close>

definition sampleEnv :: advice_env where
  "sampleEnv = \<lparr>month = 0, historyItems = [], shuffle = (\<lambda>xs. xs)\<rparr>"

definition sampleSearchIntent :: intent where
  "sampleSearchIntent =
     \<lparr>n_intent = SEARCH_ITEM, n_item = Some ''toothpaste'', n_quantity = None,
      n_language = JStr ''en'', n_source = Some ''llm'', n_category = None, n_brand = None,
      n_maxPrice = Some (Num 10), n_minPrice = None, n_size = None, n_qualifier = None\<rparr>"

text \<open>
  Replies of the language model, and a decoder that agrees with \<^verbatim>\<open>JSON.parse\<close> on the
  texts that the evaluations below decode: the three JSON texts decode to their members; the
  text of \<open>replyWithBraces\<close>, which is not JSON, is refused.
\<close>

definition replyNegative :: string where
  \<open>replyNegative = ''{"intent":"ADD_ITEM","item":"Milk","quantity":-2}''\<close>

definition replyNoQuantity :: string where
  \<open>replyNoQuantity = ''{"intent":"ADD_ITEM","item":"Milk","quantity":null,"language":"en"}''\<close>

definition replyUnknownNumber :: string where
  \<open>replyUnknownNumber = ''{"intent":"UNKNOWN","item":5}''\<close>

definition replyWithNote :: string where
  \<open>replyWithNote = ''Sure: {"intent":"ADD_ITEM","item":"Milk","quantity":-2} (JSON)''\<close>

definition replyWithBraces :: string where
  \<open>replyWithBraces = ''{"intent":"ADD_ITEM","item":"Milk","quantity":-2} as in {"quantity":-2}''\<close>

definition sampleDecode :: "string \<Rightarrow> (string \<times> jval) list option" where
  "sampleDecode =
     map_of
       [(replyNegative,
           [(''intent'', JStr ''ADD_ITEM''), (''item'', JStr ''Milk''), (''quantity'', JNum (- 2))]),
        (replyNoQuantity,
           [(''intent'', JStr ''ADD_ITEM''), (''item'', JStr ''Milk''), (''quantity'', JNull),
            (''language'', JStr ''en'')]),
        (replyUnknownNumber,
           [(''intent'', JStr ''UNKNOWN''), (''item'', JNum 5)])]"

text \<open>A translation backend that answers every call with the translation \<^verbatim>\<open>hello\<close>.\<close>

definition sampleBackend :: "string \<Rightarrow> string \<Rightarrow> http_outcome" where
  "sampleBackend url inputs = HttpOk (JArr [JObj [(''translation_text'', JStr ''hello'')]])"

definition noFilters :: filters where
  "noFilters =
     \<lparr>f_brand = None, f_maxPrice = None, f_minPrice = None, f_size = None, f_qualifier = None\<rparr>"

section \<open>The matcher is sound for the language of an expression\<close>

lemma soundI:
  "(\<And>s c rest cap. (rest, cap) \<in> set (f (s, c)) \<Longrightarrow>
       (\<exists>w\<in>L. s = w @ rest) \<and> (cap = c \<or> (\<exists>g\<in>G. cap = Some g))) \<Longrightarrow> sound L G f"
  unfolding sound_def by blast

lemma soundD:
  "sound L G f \<Longrightarrow> (rest, cap) \<in> set (f (s, c)) \<Longrightarrow>
       (\<exists>w\<in>L. s = w @ rest) \<and> (cap = c \<or> (\<exists>g\<in>G. cap = Some g))"
  unfolding sound_def by blast

lemma star_sound:
  assumes f: "sound L G f"
  shows "sound {concat ws | ws. set ws \<subseteq> L} G (star n f)"
proof (induction n)
  case 0
  show ?case
  proof (rule soundI)
    fix s c rest cap assume "(rest, cap) \<in> set (star 0 f (s, c))"
    then have "rest = s" "cap = c" by auto
    moreover have "concat [] = ([]::string)" "set ([]::string list) \<subseteq> L" by auto
    ultimately show "(\<exists>w\<in>{concat ws | ws. set ws \<subseteq> L}. s = w @ rest) \<and> (cap = c \<or> (\<exists>g\<in>G. cap = Some g))"
      by (metis (mono_tags, lifting) append_Nil mem_Collect_eq)
  qed
next
  case (Suc n)
  show ?case
  proof (rule soundI)
    fix s c rest cap assume a: "(rest, cap) \<in> set (star (Suc n) f (s, c))"
    have nil: "\<exists>w\<in>{concat ws | ws. set ws \<subseteq> L}. s = w @ s"
    proof -
      have "concat [] = ([]::string)" "set ([]::string list) \<subseteq> L" by auto
      then show ?thesis by (metis (mono_tags, lifting) append_Nil mem_Collect_eq)
    qed
    from a consider "rest = s \<and> cap = c"
      | st' where "st' \<in> set (f (s, c))" "progress (s, c) st'" "(rest, cap) \<in> set (star n f st')"
      by (auto split: if_splits)
    then show "(\<exists>w\<in>{concat ws | ws. set ws \<subseteq> L}. s = w @ rest) \<and> (cap = c \<or> (\<exists>g\<in>G. cap = Some g))"
    proof cases
      case 1
      then show ?thesis using nil by simp
    next
      case 2
      obtain s1 c1 where st': "st' = (s1, c1)" by (cases st')
      from soundD[OF f 2(1)[unfolded st']] obtain w1 where
        w1: "w1 \<in> L" "s = w1 @ s1" and c1: "c1 = c \<or> (\<exists>g\<in>G. c1 = Some g)" by blast
      from soundD[OF Suc 2(3)[unfolded st']] obtain ws where
        ws: "set ws \<subseteq> L" "s1 = concat ws @ rest" and c2: "cap = c1 \<or> (\<exists>g\<in>G. cap = Some g)" by blast
      have "set (w1 # ws) \<subseteq> L" "s = concat (w1 # ws) @ rest" using w1 ws by auto
      then have "\<exists>w\<in>{concat ws | ws. set ws \<subseteq> L}. s = w @ rest"
        by (metis (mono_tags, lifting) mem_Collect_eq)
      then show ?thesis using c1 c2 by blast
    qed
  qed
qed

lemma rxm_sound: "sound (lang r) (groups r) (rxm r)"
proof (induction r)
  case (Lit w)
  show ?case by (rule soundI) (auto simp: prefix_def split: if_splits)
next
  case (LitI w)
  show ?case
  proof (rule soundI)
    fix s c rest cap assume "(rest, cap) \<in> set (rxm (LitI w) (s, c))"
    then have 1: "map canonicalize (take (length w) s) = map canonicalize w"
      and 2: "rest = drop (length w) s" and 3: "cap = c"
      by (auto split: if_splits)
    have "take (length w) s \<in> lang (LitI w)" using 1 by simp
    moreover have "s = take (length w) s @ rest" using 2 by simp
    ultimately show "(\<exists>w\<in>lang (LitI w). s = w @ rest) \<and> (cap = c \<or> (\<exists>g\<in>groups (LitI w). cap = Some g))"
      using 3 by blast
  qed
next
  case (Cls p)
  show ?case by (rule soundI) (auto split: list.splits if_splits)
next
  case (Seq a b)
  show ?case
  proof (rule soundI)
    fix s c rest cap assume "(rest, cap) \<in> set (rxm (Seq a b) (s, c))"
    then obtain s1 c1 where 1: "(s1, c1) \<in> set (rxm a (s, c))" and 2: "(rest, cap) \<in> set (rxm b (s1, c1))"
      by auto
    from soundD[OF Seq(1) 1] soundD[OF Seq(2) 2]
    show "(\<exists>w\<in>lang (Seq a b). s = w @ rest) \<and> (cap = c \<or> (\<exists>g\<in>groups (Seq a b). cap = Some g))"
      by (auto; metis append.assoc)
  qed
next
  case (Alt a b)
  show ?case
  proof (rule soundI)
    fix s c rest cap assume "(rest, cap) \<in> set (rxm (Alt a b) (s, c))"
    then have "(rest, cap) \<in> set (rxm a (s, c)) \<or> (rest, cap) \<in> set (rxm b (s, c))" by auto
    with soundD[OF Alt(1)] soundD[OF Alt(2)]
    show "(\<exists>w\<in>lang (Alt a b). s = w @ rest) \<and> (cap = c \<or> (\<exists>g\<in>groups (Alt a b). cap = Some g))"
      by (metis UnCI groups.simps(5) lang.simps(5))
  qed
next
  case (Opt a)
  show ?case
  proof (rule soundI)
    fix s c rest cap assume "(rest, cap) \<in> set (rxm (Opt a) (s, c))"
    then have "(rest, cap) \<in> set (rxm a (s, c)) \<or> (rest = s \<and> cap = c)" by auto
    with soundD[OF Opt]
    show "(\<exists>w\<in>lang (Opt a). s = w @ rest) \<and> (cap = c \<or> (\<exists>g\<in>groups (Opt a). cap = Some g))"
      by (metis append_Nil groups.simps(6) insertCI lang.simps(6))
  qed
next
  case (Star a)
  show ?case using star_sound[OF Star] by (simp add: sound_def)
next
  case (Plus a)
  show ?case
  proof (rule soundI)
    fix s c rest cap assume "(rest, cap) \<in> set (rxm (Plus a) (s, c))"
    then obtain s1 c1 where 1: "(s1, c1) \<in> set (rxm a (s, c))"
      and 2: "(rest, cap) \<in> set (star (length s1) (rxm a) (s1, c1))"
      by auto
    from soundD[OF Plus 1] obtain w1 where
      w1: "w1 \<in> lang a" "s = w1 @ s1" and c1: "c1 = c \<or> (\<exists>g\<in>groups a. c1 = Some g)" by blast
    from soundD[OF star_sound[OF Plus] 2] obtain ws where
      ws: "set ws \<subseteq> lang a" "s1 = concat ws @ rest" and c2: "cap = c1 \<or> (\<exists>g\<in>groups a. cap = Some g)" by blast
    have "w1 # ws \<noteq> []" "set (w1 # ws) \<subseteq> lang a" "s = concat (w1 # ws) @ rest" using w1 ws by auto
    then have "\<exists>w\<in>lang (Plus a). s = w @ rest"
      unfolding lang.simps by (metis (mono_tags, lifting) mem_Collect_eq)
    then show "(\<exists>w\<in>lang (Plus a). s = w @ rest) \<and> (cap = c \<or> (\<exists>g\<in>groups (Plus a). cap = Some g))"
      using c1 c2 by auto
  qed
next
  case (Grp a)
  show ?case
  proof (rule soundI)
    fix s c rest cap assume "(rest, cap) \<in> set (rxm (Grp a) (s, c))"
    then obtain c1 where 1: "(rest, c1) \<in> set (rxm a (s, c))"
      and cap: "cap = Some (take (length s - length rest) s)" by auto
    from soundD[OF Grp 1] obtain w where w: "w \<in> lang a" "s = w @ rest" by blast
    then have "cap = Some w" using cap by simp
    then show "(\<exists>w\<in>lang (Grp a). s = w @ rest) \<and> (cap = c \<or> (\<exists>g\<in>groups (Grp a). cap = Some g))"
      using w by auto
  qed
qed

lemma regexMatch_sound:
  "regexMatch r s = Some (m, cap) \<Longrightarrow>
     m \<in> lang r \<and> (\<exists>pre post. s = pre @ m @ post) \<and> (cap = None \<or> (\<exists>g\<in>groups r. cap = Some g))"
proof (induction s)
  case Nil
  then obtain st rest where e: "rxm r ([], None) = st # rest" and m: "m = []" and c: "cap = snd st"
    by (auto split: list.splits)
  then have "(fst st, cap) \<in> set (rxm r ([], None))" by (cases st) auto
  from soundD[OF rxm_sound this] show ?case using m by auto
next
  case (Cons x xs)
  show ?case
  proof (cases "rxm r (x # xs, None)")
    case Nil
    with Cons.prems have "regexMatch r xs = Some (m, cap)" by simp
    from Cons.IH[OF this] show ?thesis by (metis append_Cons)
  next
    case (Cons st rest)
    with Cons.prems have m: "m = take (length (x # xs) - length (fst st)) (x # xs)" and c: "cap = snd st"
      by auto
    have "(fst st, cap) \<in> set (rxm r (x # xs, None))" using Cons c by (cases st) auto
    from soundD[OF rxm_sound this] obtain w where w: "w \<in> lang r" "x # xs = w @ fst st"
      and g: "cap = None \<or> (\<exists>g\<in>groups r. cap = Some g)" by blast
    have "m = w" using m w(2) by (metis append_eq_conv_conj length_append add_diff_cancel_right')
    then show ?thesis using w g by (metis append_Nil)
  qed
qed

lemma star_keeps_group:
  assumes f: "sound L G f"
  shows "(rest, cap) \<in> set (star n f (s, c)) \<Longrightarrow> (\<exists>g\<in>G. c = Some g) \<Longrightarrow> (\<exists>g\<in>G. cap = Some g)"
  using soundD[OF star_sound[OF f]] by blast

lemma rxm_sets_group:
  "setsGroup r \<Longrightarrow> (rest, cap) \<in> set (rxm r (s, c)) \<Longrightarrow> (\<exists>g\<in>groups r. cap = Some g)"
proof (induction r arbitrary: s c rest cap)
  case (Seq a b)
  from Seq.prems(2) obtain s1 c1 where 1: "(s1, c1) \<in> set (rxm a (s, c))"
    and 2: "(rest, cap) \<in> set (rxm b (s1, c1))" by auto
  show ?case
  proof (cases "setsGroup b")
    case True
    from Seq.IH(2)[OF True 2] show ?thesis by auto
  next
    case False
    then have "setsGroup a" using Seq.prems(1) by simp
    from Seq.IH(1)[OF this 1] obtain g where "g \<in> groups a" "c1 = Some g" by blast
    with soundD[OF rxm_sound 2] show ?thesis by auto
  qed
next
  case (Alt a b)
  from Alt.prems(2) have "(rest, cap) \<in> set (rxm a (s, c)) \<or> (rest, cap) \<in> set (rxm b (s, c))" by auto
  with Alt.IH[of rest cap s c] Alt.prems(1) show ?case by fastforce
next
  case (Plus a)
  from Plus.prems(2) obtain s1 c1 where 1: "(s1, c1) \<in> set (rxm a (s, c))"
    and 2: "(rest, cap) \<in> set (star (length s1) (rxm a) (s1, c1))" by auto
  from Plus.IH[OF _ 1] Plus.prems(1) have "\<exists>g\<in>groups a. c1 = Some g" by simp
  from star_keeps_group[OF rxm_sound 2 this] show ?case by simp
next
  case (Grp a)
  from Grp.prems(2) obtain c1 where 1: "(rest, c1) \<in> set (rxm a (s, c))"
    and cap: "cap = Some (take (length s - length rest) s)" by auto
  from soundD[OF rxm_sound 1] obtain w where w: "w \<in> lang a" "s = w @ rest" by blast
  then have "cap = Some w" using cap by simp
  then show ?case using w by auto
qed simp_all

lemma regexMatch_sets_group:
  "setsGroup r \<Longrightarrow> regexMatch r s = Some (m, cap) \<Longrightarrow> (\<exists>g\<in>groups r. cap = Some g)"
proof (induction s)
  case Nil
  then obtain st rest where e: "rxm r ([], None) = st # rest" and c: "cap = snd st"
    by (auto split: list.splits)
  then have "(fst st, cap) \<in> set (rxm r ([], None))" by (cases st) auto
  from rxm_sets_group[OF Nil.prems(1) this] show ?case .
next
  case (Cons x xs)
  show ?case
  proof (cases "rxm r (x # xs, None)")
    case Nil
    with Cons.prems have "regexMatch r xs = Some (m, cap)" by simp
    from Cons.IH[OF Cons.prems(1) this] show ?thesis .
  next
    case (Cons st rest)
    with Cons.prems have c: "cap = snd st" by auto
    have "(fst st, cap) \<in> set (rxm r (x # xs, None))" using Cons c by (cases st) auto
    from rxm_sets_group[OF Cons.prems(1) this] show ?thesis .
  qed
qed

section \<open>The price constraint\<close>

lemma isDigit_not_space: "isDigit c \<Longrightarrow> \<not> isSpace c"
  by (auto simp: isDigit_def isSpace_def)

lemma isDigit_not_sign: "isDigit c \<Longrightarrow> c \<noteq> CHR ''-'' \<and> c \<noteq> CHR ''+''"
  by (auto simp: isDigit_def)

lemma lang_numberRx_digit:
  assumes "w \<in> lang numberRx"
  shows "w \<noteq> [] \<and> isDigit (hd w)"
proof -
  from assms obtain u v where w: "w = u @ v" and u: "u \<in> lang (Plus (Cls isDigit))"
    unfolding numberRx_def by auto
  from u obtain ws where ws: "u = concat ws" "ws \<noteq> []" "set ws \<subseteq> {[c] | c. isDigit c}" by auto
  then obtain x xs where "ws = x # xs" by (cases ws) auto
  with ws obtain c where "x = [c]" "isDigit c" by auto
  with ws \<open>ws = x # xs\<close> w show ?thesis by simp
qed

lemma groups_price:
  "groups lessThanRegex = lang numberRx"
  "groups greaterThanRegex = lang numberRx"
  "groups equalRegex = lang numberRx"
  by (simp_all add: lessThanRegex_def greaterThanRegex_def equalRegex_def amountRx_def numberRx_def)

lemma captured_group:
  assumes "captured (regexMatch r t) = Some g"
  shows "g \<in> groups r"
proof -
  from assms obtain m where "regexMatch r t = Some (m, Some g)"
    by (auto simp: captured_def split: option.splits if_splits)
  from regexMatch_sound[OF this] show ?thesis by auto
qed

lemma parseFloat_digit:
  assumes "g \<noteq> []" "isDigit (hd g)"
  shows "\<exists>v. parseFloat g = Some v \<and> 0 \<le> v"
proof -
  obtain c cs where g: "g = c # cs" using assms(1) by (cases g) auto
  have d: "isDigit c" using assms(2) g by simp
  have 1: "dropWhile isSpace g = g" using g d isDigit_not_space by simp
  have 2: "hd g \<noteq> CHR ''-''" "hd g \<noteq> CHR ''+''" using g d isDigit_not_sign by auto
  have 3: "takeWhile isDigit g \<noteq> []" using g d by simp
  show ?thesis
    unfolding parseFloat_def Let_def using 1 2 3
    by (simp add: g)
qed

lemma constraintOf_price:
  assumes "r = lessThanRegex \<or> r = greaterThanRegex \<or> r = equalRegex"
      and "captured (regexMatch r t) = Some g"
  shows "\<exists>v. parseFloat g = Some v \<and> 0 \<le> v \<and> constraintOf opr g = Inr (Some \<lparr>operator = opr, value = v\<rparr>)"
proof -
  have "g \<in> lang numberRx" using captured_group[OF assms(2)] assms(1) groups_price by auto
  from lang_numberRx_digit[OF this] parseFloat_digit obtain v where "parseFloat g = Some v" "0 \<le> v"
    by blast
  then show ?thesis by (simp add: constraintOf_def)
qed

lemma extractPriceConstraint_string:
  "\<exists>r. extractPriceConstraint (JStr s) = Inr r"
proof (cases "s = []")
  case True
  then show ?thesis by (simp add: extractPriceConstraint_def)
next
  case False
  let ?t = "toLowerCase s"
  show ?thesis
  proof (cases "captured (regexMatch lessThanRegex ?t)")
    case (Some g)
    from constraintOf_price[OF _ Some, of LESS_THAN] show ?thesis
      using False Some by (auto simp: extractPriceConstraint_def callToLowerCase_def)
  next
    case None
    note lt = None
    show ?thesis
    proof (cases "captured (regexMatch greaterThanRegex ?t)")
      case (Some g)
      from constraintOf_price[OF _ Some, of GREATER_THAN] show ?thesis
        using False Some lt by (auto simp: extractPriceConstraint_def callToLowerCase_def)
    next
      case None
      note gt = None
      show ?thesis
      proof (cases "captured (regexMatch equalRegex ?t)")
        case (Some g)
        from constraintOf_price[OF _ Some, of EQUAL] show ?thesis
          using False Some lt gt by (auto simp: extractPriceConstraint_def callToLowerCase_def)
      next
        case None
        then show ?thesis
          using False lt gt by (auto simp: extractPriceConstraint_def callToLowerCase_def)
      qed
    qed
  qed
qed

text \<open>The three examples of the documentation comment of \<^verbatim>\<open>extractPriceConstraint\<close>.\<close>

lemma extractPriceConstraint_examples:
  "extractPriceConstraint (JStr ''toothpaste below $3'')
     = Inr (Some \<lparr>operator = LESS_THAN, value = 3\<rparr>)"
  "extractPriceConstraint (JStr ''under 5 dollars'')
     = Inr (Some \<lparr>operator = LESS_THAN, value = 5\<rparr>)"
  "extractPriceConstraint (JStr ''above 10'')
     = Inr (Some \<lparr>operator = GREATER_THAN, value = 10\<rparr>)"
  by code_simp+

text \<open>
  Claim C10. \<^verbatim>\<open>extractPriceConstraint\<close> is total: on every value it returns one constraint
  or none and raises nothing; on undefined, null, a boolean, a number, an array, an object
  and the empty string it returns none.
\<close>

theorem extractPriceConstraint_total:
  "(\<exists>r. extractPriceConstraint v = Inr r)
   \<and> extractPriceConstraint JUndefined = Inr None
   \<and> extractPriceConstraint JNull = Inr None
   \<and> extractPriceConstraint (JBool b) = Inr None
   \<and> extractPriceConstraint (JNum n) = Inr None
   \<and> extractPriceConstraint (JArr xs) = Inr None
   \<and> extractPriceConstraint (JObj kvs) = Inr None
   \<and> extractPriceConstraint (JStr []) = Inr None"
proof -
  have "\<exists>r. extractPriceConstraint v = Inr r"
    using extractPriceConstraint_string by (cases v) (auto simp: extractPriceConstraint_def)
  then show ?thesis by (simp add: extractPriceConstraint_def)
qed

theorem extractPriceConstraint_total_witness:
  "extractPriceConstraint (JStr ''above 10'') = Inr (Some \<lparr>operator = GREATER_THAN, value = 10\<rparr>)
   \<and> extractPriceConstraint (JStr ''search for apples'') = Inr None
   \<and> extractPriceConstraint (JNum 5) = Inr None
   \<and> extractPriceConstraint JNull = Inr None"
proof -
  have 1: "extractPriceConstraint (JStr ''above 10'') = Inr (Some \<lparr>operator = GREATER_THAN, value = 10\<rparr>)"
    by (rule extractPriceConstraint_examples)
  have 2: "extractPriceConstraint (JStr ''search for apples'') = Inr None"
    by code_simp
  from extractPriceConstraint_total[of JNull True 5 "[]" "[]"] 1 2 show ?thesis by simp
qed

lemma setsGroup_price:
  "setsGroup lessThanRegex" "setsGroup greaterThanRegex" "setsGroup equalRegex"
  by (simp_all add: lessThanRegex_def greaterThanRegex_def equalRegex_def amountRx_def)

lemma regexMatch_Nil_price: "regexMatch lessThanRegex [] = None"
  by (simp add: lessThanRegex_def amountRx_def numberRx_def)

lemma overrideFilters_less:
  "overrideFilters (Some \<lparr>operator = LESS_THAN, value = v\<rparr>) F = F\<lparr>f_maxPrice := Some (Num v)\<rparr>"
  by (simp add: overrideFilters_def)

lemma applyIntent_CatalogSearch:
  assumes "applyIntent env now intent text s = Inr (CatalogSearch pc F rs ls, s')"
  shows "extractPriceConstraint (JStr text) = Inr pc
         \<and> F = overrideFilters pc (intentFilters intent)
         \<and> rs = searchCatalog (the (n_item intent)) F
         \<and> n_intent intent = SEARCH_ITEM \<and> given (n_item intent) \<and> s' = s"
  using assms unfolding applyIntent_def
  by (auto simp: Let_def split: if_splits sum.splits option.splits intent_kind.splits prod.splits)

text \<open>
  Claim C1. When the less-than expression matches the lower-cased text, its capture \<open>w\<close>
  is a number \<open>v\<close>, \<^verbatim>\<open>extractPriceConstraint\<close> returns exactly the constraint LESS_THAN
  with the value \<open>v\<close>, and every catalog search that the route makes for this text gets
  filters whose \<open>maxPrice\<close> is \<open>v\<close>, whatever \<open>maxPrice\<close> the intent carries; the other
  bound is the one of the intent.
\<close>

theorem lessThan_constraint_replaces_maxPrice:
  assumes "regexMatch lessThanRegex (toLowerCase text) = Some (m, g)"
  shows "\<exists>w v. g = Some w \<and> parseFloat w = Some v \<and> 0 \<le> v
           \<and> extractPriceConstraint (JStr text) = Inr (Some \<lparr>operator = LESS_THAN, value = v\<rparr>)
           \<and> (\<forall>env now intent s pc F rs ls s'.
                 applyIntent env now intent text s = Inr (CatalogSearch pc F rs ls, s') \<longrightarrow>
                   pc = Some \<lparr>operator = LESS_THAN, value = v\<rparr>
                 \<and> f_maxPrice F = Some (Num v)
                 \<and> f_minPrice F = n_minPrice intent
                 \<and> rs = searchCatalog (the (n_item intent)) F)"
proof -
  from regexMatch_sets_group[OF setsGroup_price(1) assms] obtain w where
    w: "w \<in> lang numberRx" "g = Some w" using groups_price by auto
  have ne: "w \<noteq> []" using lang_numberRx_digit[OF w(1)] by simp
  have cap: "captured (regexMatch lessThanRegex (toLowerCase text)) = Some w"
    using assms w ne by (simp add: captured_def)
  from constraintOf_price[where r=lessThanRegex and opr=LESS_THAN, OF _ cap] obtain v where
    v: "parseFloat w = Some v" "0 \<le> v"
       "constraintOf LESS_THAN w = Inr (Some \<lparr>operator = LESS_THAN, value = v\<rparr>)" by auto
  have "text \<noteq> []" using assms regexMatch_Nil_price by (auto simp: toLowerCase_def)
  then have e: "extractPriceConstraint (JStr text) = Inr (Some \<lparr>operator = LESS_THAN, value = v\<rparr>)"
    using cap v(3) by (simp add: extractPriceConstraint_def callToLowerCase_def)
  have "pc = Some \<lparr>operator = LESS_THAN, value = v\<rparr> \<and> f_maxPrice F = Some (Num v)
        \<and> f_minPrice F = n_minPrice intent \<and> rs = searchCatalog (the (n_item intent)) F"
    if "applyIntent env now intent text s = Inr (CatalogSearch pc F rs ls, s')"
    for env now intent s pc F rs ls s'
  proof -
    note c = applyIntent_CatalogSearch[OF that]
    from c e have pc: "pc = Some \<lparr>operator = LESS_THAN, value = v\<rparr>" by simp
    from c pc have "F = (intentFilters intent)\<lparr>f_maxPrice := Some (Num v)\<rparr>"
      by (simp add: overrideFilters_less)
    then show ?thesis using c pc by (simp add: intentFilters_def)
  qed
  then show ?thesis using w(2) v(1,2) e by blast
qed

lemma sample_match:
  "regexMatch lessThanRegex (toLowerCase ''Find toothpaste under $4'') = Some (''under $4'', Some ''4'')"
  by code_simp

lemma sample_parse: "parseFloat ''4'' = Some 4"
  by code_simp

lemma sample_apply:
  "(case applyIntent sampleEnv ''t'' sampleSearchIntent ''Find toothpaste under $4'' initialStore of
      Inr (CatalogSearch pc F rs ls, s') \<Rightarrow> map p_id rs = [20, 21] \<and> n_maxPrice sampleSearchIntent = Some (Num 10)
    | _ \<Rightarrow> False)"
  by code_simp

theorem lessThan_constraint_replaces_maxPrice_witness:
  "\<exists>pc F rs ls s'.
     applyIntent sampleEnv ''t'' sampleSearchIntent ''Find toothpaste under $4'' initialStore
       = Inr (CatalogSearch pc F rs ls, s')
     \<and> n_maxPrice sampleSearchIntent = Some (Num 10)
     \<and> f_maxPrice F = Some (Num 4)
     \<and> map p_id rs = [20, 21]
     \<and> extractPriceConstraint (JStr ''Find toothpaste under $4'')
         = Inr (Some \<lparr>operator = LESS_THAN, value = 4\<rparr>)"
proof -
  from sample_apply obtain pc F rs ls s' where
    a: "applyIntent sampleEnv ''t'' sampleSearchIntent ''Find toothpaste under $4'' initialStore
          = Inr (CatalogSearch pc F rs ls, s')"
    and b: "map p_id rs = [20, 21]" "n_maxPrice sampleSearchIntent = Some (Num 10)"
    by (auto split: sum.splits prod.splits response.splits)
  from lessThan_constraint_replaces_maxPrice[OF sample_match] obtain v where
    v: "parseFloat ''4'' = Some v"
       "extractPriceConstraint (JStr ''Find toothpaste under $4'') = Inr (Some \<lparr>operator = LESS_THAN, value = v\<rparr>)"
       "\<forall>env now intent s pc F rs ls s'.
                 applyIntent env now intent ''Find toothpaste under $4'' s = Inr (CatalogSearch pc F rs ls, s') \<longrightarrow>
                   pc = Some \<lparr>operator = LESS_THAN, value = v\<rparr>
                 \<and> f_maxPrice F = Some (Num v)
                 \<and> f_minPrice F = n_minPrice intent
                 \<and> rs = searchCatalog (the (n_item intent)) F"
    by blast
  have v4: "v = 4" using v(1) sample_parse by simp
  from v(3) a have "f_maxPrice F = Some (Num v)" by blast
  then have "f_maxPrice F = Some (Num 4)" using v4 by simp
  moreover have "extractPriceConstraint (JStr ''Find toothpaste under $4'')
         = Inr (Some \<lparr>operator = LESS_THAN, value = 4\<rparr>)" using v(2) v4 by simp
  ultimately show ?thesis using a b by (intro exI conjI)
qed

section \<open>The catalog search\<close>

lemma keeps_conj:
  "keeps q F p \<longleftrightarrow>
     (includesStr (p_name p) q \<or> includesStr q (p_name p))
   \<and> \<not> (given (f_brand F) \<and> \<not> includesStr (toLowerCase (p_brand p)) (toLowerCase (the (f_brand F))))
   \<and> \<not> (f_maxPrice F \<noteq> None \<and> jsGreater (p_price p) (the (f_maxPrice F)))
   \<and> \<not> (f_minPrice F \<noteq> None \<and> jsLess (p_price p) (the (f_minPrice F)))
   \<and> \<not> (given (f_size F) \<and> \<not> includesStr (toLowerCase (p_size p)) (toLowerCase (the (f_size F))))
   \<and> \<not> (given (f_qualifier F)
          \<and> \<not> list_ex (\<lambda>t. includesStr t (toLowerCase (the (f_qualifier F)))) (p_tags p)
          \<and> \<not> includesStr (p_name p) (toLowerCase (the (f_qualifier F))))"
  unfolding keeps_def Let_def by (simp only: if_bool_eq_conj) blast

lemma given_imp: "(\<not> (given x \<and> \<not> P (the x))) = (\<forall>b. x = Some b \<and> b \<noteq> [] \<longrightarrow> P b)"
  by (cases x) (auto simp: given_def)

lemma bound_imp: "(\<not> (x \<noteq> None \<and> Q (the x))) = (\<forall>m. x = Some m \<longrightarrow> \<not> Q m)"
  by (cases x) auto

lemma keeps_iff:
  "keeps q F p \<longleftrightarrow>
     (includesStr (p_name p) q \<or> includesStr q (p_name p))
   \<and> (\<forall>b. f_brand F = Some b \<and> b \<noteq> [] \<longrightarrow> includesStr (toLowerCase (p_brand p)) (toLowerCase b))
   \<and> (\<forall>m. f_maxPrice F = Some m \<longrightarrow> \<not> jsGreater (p_price p) m)
   \<and> (\<forall>m. f_minPrice F = Some m \<longrightarrow> \<not> jsLess (p_price p) m)
   \<and> (\<forall>z. f_size F = Some z \<and> z \<noteq> [] \<longrightarrow> includesStr (toLowerCase (p_size p)) (toLowerCase z))
   \<and> (\<forall>u. f_qualifier F = Some u \<and> u \<noteq> [] \<longrightarrow>
          (\<exists>t\<in>set (p_tags p). includesStr t (toLowerCase u)) \<or> includesStr (p_name p) (toLowerCase u))"
proof -
  have 1: "(\<not> (given (f_brand F) \<and> \<not> includesStr (toLowerCase (p_brand p)) (toLowerCase (the (f_brand F)))))
        = (\<forall>b. f_brand F = Some b \<and> b \<noteq> [] \<longrightarrow> includesStr (toLowerCase (p_brand p)) (toLowerCase b))"
    by (rule given_imp[of "f_brand F" "\<lambda>b. includesStr (toLowerCase (p_brand p)) (toLowerCase b)"])
  have 2: "(\<not> (f_maxPrice F \<noteq> None \<and> jsGreater (p_price p) (the (f_maxPrice F))))
        = (\<forall>m. f_maxPrice F = Some m \<longrightarrow> \<not> jsGreater (p_price p) m)"
    by (rule bound_imp[of "f_maxPrice F" "\<lambda>m. jsGreater (p_price p) m"])
  have 3: "(\<not> (f_minPrice F \<noteq> None \<and> jsLess (p_price p) (the (f_minPrice F))))
        = (\<forall>m. f_minPrice F = Some m \<longrightarrow> \<not> jsLess (p_price p) m)"
    by (rule bound_imp[of "f_minPrice F" "\<lambda>m. jsLess (p_price p) m"])
  have 4: "(\<not> (given (f_size F) \<and> \<not> includesStr (toLowerCase (p_size p)) (toLowerCase (the (f_size F)))))
        = (\<forall>z. f_size F = Some z \<and> z \<noteq> [] \<longrightarrow> includesStr (toLowerCase (p_size p)) (toLowerCase z))"
    by (rule given_imp[of "f_size F" "\<lambda>b. includesStr (toLowerCase (p_size p)) (toLowerCase b)"])
  have 5: "(\<not> (given (f_qualifier F)
          \<and> \<not> list_ex (\<lambda>t. includesStr t (toLowerCase (the (f_qualifier F)))) (p_tags p)
          \<and> \<not> includesStr (p_name p) (toLowerCase (the (f_qualifier F)))))
        = (\<forall>u. f_qualifier F = Some u \<and> u \<noteq> [] \<longrightarrow>
          (\<exists>t\<in>set (p_tags p). includesStr t (toLowerCase u)) \<or> includesStr (p_name p) (toLowerCase u))"
    using given_imp[of "f_qualifier F" "\<lambda>u. (\<exists>t\<in>set (p_tags p). includesStr t (toLowerCase u)) \<or> includesStr (p_name p) (toLowerCase u)"]
    by (simp add: list_ex_iff)
  show ?thesis unfolding keeps_conj 1 2 3 4 5 ..
qed

lemma not_jsGreater: "b \<noteq> NaN \<Longrightarrow> (\<not> jsGreater p b) = jsLessEq p b"
  by (cases b) auto

lemma not_jsLess: "b \<noteq> NaN \<Longrightarrow> (\<not> jsLess p b) = jsGreaterEq p b"
  by (cases b) auto

text \<open>A bound that is NaN drops no product.\<close>

lemma keeps_NaN:
  "keeps q (F\<lparr>f_maxPrice := Some NaN\<rparr>) p = keeps q (F\<lparr>f_maxPrice := None\<rparr>) p"
  "keeps q (F\<lparr>f_minPrice := Some NaN\<rparr>) p = keeps q (F\<lparr>f_minPrice := None\<rparr>) p"
  by (simp_all add: keeps_iff)

lemma set_searchCatalog:
  "set (searchCatalog query F) = {p \<in> set CATALOG. keeps (trim (toLowerCase query)) F p}"
  by (simp add: searchCatalog_def Let_def)

lemma insort_key_lex:
  assumes "sorted_wrt (\<lambda>a b. f a < f b \<or> (f a = f b \<and> R a b)) ys" and "\<forall>y\<in>set ys. R x y"
  shows "sorted_wrt (\<lambda>a b. f a < f b \<or> (f a = f b \<and> R a b)) (insort_key f x ys)"
  using assms
proof (induction ys)
  case Nil
  then show ?case by simp
next
  case (Cons y ys)
  show ?case
  proof (cases "f x \<le> f y")
    case True
    have "f x < f z \<or> (f x = f z \<and> R x z)" if "z \<in> set (y # ys)" for z
    proof -
      have "f y \<le> f z" using that Cons.prems(1) by auto
      then have "f x \<le> f z" using True by simp
      moreover have "R x z" using that Cons.prems(2) by auto
      ultimately show ?thesis by auto
    qed
    then show ?thesis using True Cons.prems(1) by simp
  next
    case False
    then have "f y < f x" by simp
    moreover have "sorted_wrt (\<lambda>a b. f a < f b \<or> (f a = f b \<and> R a b)) (insort_key f x ys)"
      using Cons by simp
    ultimately show ?thesis using False Cons.prems(1) by (auto simp: set_insort_key)
  qed
qed

lemma sort_key_lex:
  "sorted_wrt R xs \<Longrightarrow> sorted_wrt (\<lambda>a b. f a < f b \<or> (f a = f b \<and> R a b)) (sort_key f xs)"
proof (induction xs)
  case Nil
  then show ?case by simp
next
  case (Cons x xs)
  then have "sorted_wrt (\<lambda>a b. f a < f b \<or> (f a = f b \<and> R a b)) (sort_key f xs)" by simp
  moreover have "\<forall>y\<in>set (sort_key f xs). R x y" using Cons.prems by simp
  ultimately show ?case using insort_key_lex[of f R "sort_key f xs" x] by simp
qed

lemma CATALOG_ids: "map p_id CATALOG = [1..<40]"
  by code_simp

lemma CATALOG_declaration_order: "sorted_wrt (\<lambda>a b. p_id a < p_id b) CATALOG"
proof -
  have "sorted_wrt (<) (map p_id CATALOG)" unfolding CATALOG_ids by simp
  then show ?thesis by (simp add: sorted_wrt_map)
qed

text \<open>
  Claim C3, as the code has it. Every product that \<^verbatim>\<open>searchCatalog\<close> returns is a product
  of the catalog whose name contains the query or is contained in it and which passes every
  filter that is set: its brand and its size contain the text asked for (letter case
  ignored), its price is at most \<open>maxPrice\<close> and at least \<open>minPrice\<close> when the bound is a
  number other than NaN, and one of its tags or its name contains the qualifier. The
  result is sorted by price, non-decreasing; products of equal price stand in the order of
  their declaration in the catalog, which is the order of their ids.
\<close>

theorem searchCatalog_filtered_sorted_stable:
  "(\<forall>p\<in>set (searchCatalog query F).
       p \<in> set CATALOG
     \<and> (includesStr (p_name p) (trim (toLowerCase query))
          \<or> includesStr (trim (toLowerCase query)) (p_name p))
     \<and> (\<forall>b. f_brand F = Some b \<and> b \<noteq> [] \<longrightarrow>
            includesStr (toLowerCase (p_brand p)) (toLowerCase b))
     \<and> (\<forall>b. f_maxPrice F = Some b \<and> b \<noteq> NaN \<longrightarrow> jsLessEq (p_price p) b)
     \<and> (\<forall>b. f_minPrice F = Some b \<and> b \<noteq> NaN \<longrightarrow> jsGreaterEq (p_price p) b)
     \<and> (\<forall>m. f_maxPrice F = Some (Num m) \<longrightarrow> p_price p \<le> m)
     \<and> (\<forall>m. f_minPrice F = Some (Num m) \<longrightarrow> m \<le> p_price p)
     \<and> (\<forall>z. f_size F = Some z \<and> z \<noteq> [] \<longrightarrow>
            includesStr (toLowerCase (p_size p)) (toLowerCase z))
     \<and> (\<forall>u. f_qualifier F = Some u \<and> u \<noteq> [] \<longrightarrow>
            (\<exists>t\<in>set (p_tags p). includesStr t (toLowerCase u))
            \<or> includesStr (p_name p) (toLowerCase u)))
   \<and> sorted (map p_price (searchCatalog query F))
   \<and> sorted_wrt (\<lambda>a b. p_price a < p_price b \<or> (p_price a = p_price b \<and> p_id a < p_id b))
        (searchCatalog query F)
   \<and> (\<forall>k. filter (\<lambda>p. p_price p = k) (searchCatalog query F)
          = filter (\<lambda>p. p_price p = k \<and> keeps (trim (toLowerCase query)) F p) CATALOG)"
proof (intro conjI)
  have "p \<in> set CATALOG
     \<and> (includesStr (p_name p) (trim (toLowerCase query))
          \<or> includesStr (trim (toLowerCase query)) (p_name p))
     \<and> (\<forall>b. f_brand F = Some b \<and> b \<noteq> [] \<longrightarrow>
            includesStr (toLowerCase (p_brand p)) (toLowerCase b))
     \<and> (\<forall>b. f_maxPrice F = Some b \<and> b \<noteq> NaN \<longrightarrow> jsLessEq (p_price p) b)
     \<and> (\<forall>b. f_minPrice F = Some b \<and> b \<noteq> NaN \<longrightarrow> jsGreaterEq (p_price p) b)
     \<and> (\<forall>m. f_maxPrice F = Some (Num m) \<longrightarrow> p_price p \<le> m)
     \<and> (\<forall>m. f_minPrice F = Some (Num m) \<longrightarrow> m \<le> p_price p)
     \<and> (\<forall>z. f_size F = Some z \<and> z \<noteq> [] \<longrightarrow>
            includesStr (toLowerCase (p_size p)) (toLowerCase z))
     \<and> (\<forall>u. f_qualifier F = Some u \<and> u \<noteq> [] \<longrightarrow>
            (\<exists>t\<in>set (p_tags p). includesStr t (toLowerCase u))
            \<or> includesStr (p_name p) (toLowerCase u))"
    if "p \<in> set (searchCatalog query F)" for p
  proof -
    from that have c: "p \<in> set CATALOG" and k: "keeps (trim (toLowerCase query)) F p"
      by (simp_all add: set_searchCatalog)
    note k' = k[unfolded keeps_iff]
    have mx: "jsLessEq (p_price p) b" if "f_maxPrice F = Some b" "b \<noteq> NaN" for b
      using k' that not_jsGreater by blast
    have mn: "jsGreaterEq (p_price p) b" if "f_minPrice F = Some b" "b \<noteq> NaN" for b
      using k' that not_jsLess by blast
    have mx': "p_price p \<le> m" if "f_maxPrice F = Some (Num m)" for m
      using mx[OF that] by simp
    have mn': "m \<le> p_price p" if "f_minPrice F = Some (Num m)" for m
      using mn[OF that] by simp
    from c k' mx mn mx' mn' show ?thesis by blast
  qed
  then show "\<forall>p\<in>set (searchCatalog query F).
       p \<in> set CATALOG
     \<and> (includesStr (p_name p) (trim (toLowerCase query))
          \<or> includesStr (trim (toLowerCase query)) (p_name p))
     \<and> (\<forall>b. f_brand F = Some b \<and> b \<noteq> [] \<longrightarrow>
            includesStr (toLowerCase (p_brand p)) (toLowerCase b))
     \<and> (\<forall>b. f_maxPrice F = Some b \<and> b \<noteq> NaN \<longrightarrow> jsLessEq (p_price p) b)
     \<and> (\<forall>b. f_minPrice F = Some b \<and> b \<noteq> NaN \<longrightarrow> jsGreaterEq (p_price p) b)
     \<and> (\<forall>m. f_maxPrice F = Some (Num m) \<longrightarrow> p_price p \<le> m)
     \<and> (\<forall>m. f_minPrice F = Some (Num m) \<longrightarrow> m \<le> p_price p)
     \<and> (\<forall>z. f_size F = Some z \<and> z \<noteq> [] \<longrightarrow>
            includesStr (toLowerCase (p_size p)) (toLowerCase z))
     \<and> (\<forall>u. f_qualifier F = Some u \<and> u \<noteq> [] \<longrightarrow>
            (\<exists>t\<in>set (p_tags p). includesStr t (toLowerCase u))
            \<or> includesStr (p_name p) (toLowerCase u))"
    by blast
next
  show "sorted (map p_price (searchCatalog query F))"
    by (simp add: searchCatalog_def Let_def)
next
  have "sorted_wrt (\<lambda>a b. p_id a < p_id b) (filter (keeps (trim (toLowerCase query)) F) CATALOG)"
    using CATALOG_declaration_order by (rule sorted_wrt_filter)
  then show "sorted_wrt (\<lambda>a b. p_price a < p_price b \<or> (p_price a = p_price b \<and> p_id a < p_id b))
        (searchCatalog query F)"
    unfolding searchCatalog_def Let_def by (rule sort_key_lex)
next
  show "\<forall>k. filter (\<lambda>p. p_price p = k) (searchCatalog query F)
          = filter (\<lambda>p. p_price p = k \<and> keeps (trim (toLowerCase query)) F p) CATALOG"
    by (simp add: searchCatalog_def Let_def sort_key_stable conj_commute)
qed

lemma sample_search:
  "map p_id (searchCatalog ''Toothpaste'' (noFilters\<lparr>f_maxPrice := Some (Num 4)\<rparr>)) = [20, 21]"
  by code_simp

lemma sample_ties:
  "map p_id (filter (\<lambda>p. p_price p = 399 / 100) (searchCatalog ''e'' noFilters)) = [1, 18, 21]"
  by code_simp

theorem searchCatalog_filtered_sorted_stable_witness:
  "map p_id (searchCatalog ''Toothpaste'' (noFilters\<lparr>f_maxPrice := Some (Num 4)\<rparr>)) = [20, 21]
   \<and> list_all (\<lambda>p. p_price p \<le> 4) (searchCatalog ''Toothpaste'' (noFilters\<lparr>f_maxPrice := Some (Num 4)\<rparr>))
   \<and> sorted (map p_price (searchCatalog ''Toothpaste'' (noFilters\<lparr>f_maxPrice := Some (Num 4)\<rparr>)))
   \<and> map p_id (filter (\<lambda>p. p_price p = 399 / 100) (searchCatalog ''e'' noFilters)) = [1, 18, 21]"
proof -
  have m: "f_maxPrice (noFilters\<lparr>f_maxPrice := Some (Num 4)\<rparr>) = Some (Num 4)" by simp
  from searchCatalog_filtered_sorted_stable[of "''Toothpaste''" "noFilters\<lparr>f_maxPrice := Some (Num 4)\<rparr>"] m
  have "\<forall>p\<in>set (searchCatalog ''Toothpaste'' (noFilters\<lparr>f_maxPrice := Some (Num 4)\<rparr>)). p_price p \<le> 4"
    and "sorted (map p_price (searchCatalog ''Toothpaste'' (noFilters\<lparr>f_maxPrice := Some (Num 4)\<rparr>)))"
    by blast+
  then show ?thesis using sample_search sample_ties by (simp add: list_all_iff)
qed

text \<open>
  Claim C3 as stated fails: \<^verbatim>\<open>GET /api/search?q=toothpaste&maxPrice=abc\<close> searches with the
  bound NaN; the bound counts as set, no price is greater than NaN, and the three
  toothpastes come back, of which none has a price that is at most the bound.
\<close>

theorem maxPrice_NaN_counterexample:
  "map_option (\<lambda>r. (f_maxPrice (fst r), map p_id (snd r)))
      (searchRoute (Some ''toothpaste'') None (Some ''abc'') None None None)
     = Some (Some NaN, [20, 21, 22])
   \<and> map p_id (searchCatalog ''toothpaste'' (noFilters\<lparr>f_maxPrice := Some NaN\<rparr>)) = [20, 21, 22]
   \<and> f_maxPrice (noFilters\<lparr>f_maxPrice := Some NaN\<rparr>) \<noteq> None
   \<and> list_all (\<lambda>p. \<not> jsLessEq (p_price p) NaN)
        (searchCatalog ''toothpaste'' (noFilters\<lparr>f_maxPrice := Some NaN\<rparr>))"
  by code_simp

text \<open>
  Claim C6. The search is monotone in its filters: when the filters \<open>F'\<close> keep every
  filter that is set in \<open>F\<close> (and may set more: a brand, a bound, a size or a qualifier),
  every product found under \<open>F'\<close> is found under \<open>F\<close>, so the result under \<open>F'\<close> is not
  longer.
\<close>

theorem searchCatalog_monotone:
  assumes "given (f_brand F) \<longrightarrow> f_brand F' = f_brand F"
      and "f_maxPrice F \<noteq> None \<longrightarrow> f_maxPrice F' = f_maxPrice F"
      and "f_minPrice F \<noteq> None \<longrightarrow> f_minPrice F' = f_minPrice F"
      and "given (f_size F) \<longrightarrow> f_size F' = f_size F"
      and "given (f_qualifier F) \<longrightarrow> f_qualifier F' = f_qualifier F"
  shows "set (searchCatalog query F') \<subseteq> set (searchCatalog query F)
         \<and> length (searchCatalog query F') \<le> length (searchCatalog query F)"
proof -
  have k: "keeps q F p" if "keeps q F' p" for q p
    using that assms unfolding keeps_iff by (auto simp: given_def)
  have "filter (keeps q F') xs = filter (keeps q F') (filter (keeps q F) xs)" for q xs
    using k by (induction xs) auto
  then have "length (filter (keeps q F') xs) \<le> length (filter (keeps q F) xs)" for q xs
    by (metis length_filter_le)
  then show ?thesis using k by (auto simp: set_searchCatalog searchCatalog_def Let_def)
qed

lemma sample_search_all: "map p_id (searchCatalog ''Toothpaste'' noFilters) = [20, 21, 22]"
  by code_simp

theorem searchCatalog_monotone_witness:
  "map p_id (searchCatalog ''Toothpaste'' noFilters) = [20, 21, 22]
   \<and> map p_id (searchCatalog ''Toothpaste'' (noFilters\<lparr>f_maxPrice := Some (Num 4)\<rparr>)) = [20, 21]
   \<and> set (searchCatalog ''Toothpaste'' (noFilters\<lparr>f_maxPrice := Some (Num 4)\<rparr>))
       \<subseteq> set (searchCatalog ''Toothpaste'' noFilters)
   \<and> length (searchCatalog ''Toothpaste'' (noFilters\<lparr>f_maxPrice := Some (Num 4)\<rparr>))
       \<le> length (searchCatalog ''Toothpaste'' noFilters)"
proof -
  have "set (searchCatalog ''Toothpaste'' (noFilters\<lparr>f_maxPrice := Some (Num 4)\<rparr>))
       \<subseteq> set (searchCatalog ''Toothpaste'' noFilters)
   \<and> length (searchCatalog ''Toothpaste'' (noFilters\<lparr>f_maxPrice := Some (Num 4)\<rparr>))
       \<le> length (searchCatalog ''Toothpaste'' noFilters)"
    by (rule searchCatalog_monotone) (simp_all add: noFilters_def given_def)
  then show ?thesis using sample_search sample_search_all by simp
qed

section \<open>The shopping list\<close>

lemma find_append_last:
  "find P xs = None \<Longrightarrow> P y \<Longrightarrow> find P (xs @ [y]) = Some y"
  by (induction xs) (auto split: if_splits)

lemma updateFirst_append_last:
  "find P xs = None \<Longrightarrow> P y \<Longrightarrow> updateFirst P f (xs @ [y]) = xs @ [f y]"
  by (induction xs) (auto split: if_splits)

lemma filter_append_last:
  "find P xs = None \<Longrightarrow> P y \<Longrightarrow> filter P (xs @ [y]) = [y]"
  by (induction xs) (auto split: if_splits)

lemma addItem_new:
  assumes "find (\<lambda>i. i_name i = trim (toLowerCase name)) (shoppingList s) = None"
  shows "addItem name quantity category now s =
     (let newItem = \<lparr>i_id = nextId s, i_name = trim (toLowerCase name),
                      i_quantity = (case quantity of None \<Rightarrow> 1 | Some n \<Rightarrow> n),
                      i_category = (if given category then the category
                                    else categorize (trim (toLowerCase name))),
                      i_addedAt = now\<rparr>
      in (newItem, s\<lparr>shoppingList := shoppingList s @ [newItem], nextId := nextId s + 1,
                     purchaseHistory := trackHistory (trim (toLowerCase name)) now (purchaseHistory s)\<rparr>))"
  using assms by (simp add: addItem_def Let_def)

lemma addItem_existing:
  assumes "find (\<lambda>i. i_name i = trim (toLowerCase name)) (shoppingList s) = Some existing"
  shows "addItem name quantity category now s =
     (existing\<lparr>i_quantity := i_quantity existing + (case quantity of None \<Rightarrow> 1 | Some n \<Rightarrow> n)\<rparr>,
      s\<lparr>shoppingList := updateFirst (\<lambda>i. i_name i = trim (toLowerCase name))
            (\<lambda>i. i\<lparr>i_quantity := i_quantity i + (case quantity of None \<Rightarrow> 1 | Some n \<Rightarrow> n)\<rparr>)
            (shoppingList s),
        purchaseHistory := trackHistory (trim (toLowerCase name)) now (purchaseHistory s)\<rparr>)"
  using assms by (simp add: addItem_def Let_def)

lemma length_updateFirst: "length (updateFirst P f xs) = length xs"
  by (induction xs) auto

lemma find_updateFirst:
  "(\<And>x. P x \<Longrightarrow> P (f x)) \<Longrightarrow> find P (updateFirst P f xs) = map_option f (find P xs)"
  by (induction xs) auto

lemma filter_updateFirst:
  "(\<And>x. P x \<Longrightarrow> P (f x)) \<Longrightarrow>
     filter P (updateFirst P f xs) = (case filter P xs of [] \<Rightarrow> [] | y # ys \<Rightarrow> f y # ys)"
  by (induction xs) auto

lemma find_as_filter: "find P xs = (case filter P xs of [] \<Rightarrow> None | y # ys \<Rightarrow> Some y)"
  by (induction xs) auto

lemma names_updateFirst:
  "map i_name (updateFirst P (\<lambda>i. i\<lparr>i_quantity := g i\<rparr>) xs) = map i_name xs"
  by (induction xs) auto

text \<open>
  The entries of the list have distinct names: so it is at the start and after
  \<^verbatim>\<open>clearList\<close>, and \<^verbatim>\<open>addItem\<close> and \<^verbatim>\<open>removeItem\<close> keep it so.
\<close>

lemma distinct_names_initial:
  "distinct (map i_name (shoppingList initialStore))"
  "distinct (map i_name (shoppingList (clearList s)))"
  by (simp_all add: initialStore_def clearList_def)

lemma distinct_names_addItem:
  assumes "distinct (map i_name (shoppingList s))"
  shows "distinct (map i_name (shoppingList (snd (addItem name quantity category now s))))"
proof (cases "find (\<lambda>i. i_name i = trim (toLowerCase name)) (shoppingList s)")
  case None
  then have "trim (toLowerCase name) \<notin> i_name ` set (shoppingList s)"
    by (auto simp: find_None_iff)
  then show ?thesis using assms by (simp add: addItem_new[OF None] Let_def)
next
  case (Some existing)
  show ?thesis using assms by (simp add: addItem_existing[OF Some] names_updateFirst)
qed

lemma distinct_names_removeItem:
  assumes "distinct (map i_name (shoppingList s))"
  shows "distinct (map i_name (shoppingList (snd (removeItem name s))))"
proof -
  have "distinct (map i_name (remove1 x xs))" if d: "distinct (map i_name xs)" for x xs
  proof -
    from d have "distinct xs" "inj_on i_name (set xs)" by (simp_all add: distinct_map)
    then have "distinct (remove1 x xs)" "inj_on i_name (set (remove1 x xs))"
      using set_remove1_subset[of x xs] by (auto intro: inj_on_subset)
    then show ?thesis by (simp add: distinct_map)
  qed
  then show ?thesis using assms by (auto simp: removeItem_def Let_def split: option.splits)
qed

lemma distinct_names_at_most_one:
  "distinct (map i_name xs) \<Longrightarrow> length (filter (\<lambda>i. i_name i = n) xs) \<le> 1"
proof (induction xs)
  case Nil
  then show ?case by simp
next
  case (Cons a xs)
  show ?case
  proof (cases "i_name a = n")
    case True
    from Cons.prems have "i_name a \<notin> i_name ` set xs" by simp
    then have "\<forall>x\<in>set xs. i_name x \<noteq> n" unfolding True by (metis imageI)
    then have "filter (\<lambda>i. i_name i = n) xs = []" by (simp add: filter_empty_conv)
    then show ?thesis using True by simp
  next
    case False
    then show ?thesis using Cons by simp
  qed
qed

text \<open>
  Claim C7. On a list with at most one entry of the name (every list that the store
  reaches is one), \<^verbatim>\<open>addItem(name, q1)\<close> followed by \<^verbatim>\<open>addItem(name, q2)\<close>, with names
  that are the same after lower-casing and trimming, leaves exactly one entry of that name:
  the entry that the second call returns. Its quantity is \<open>q1 + q2\<close> more than the
  quantity that the name had before, so \<open>q1 + q2\<close> when the name was not in the list. The
  second call adds no entry and uses no new identifier.
\<close>

theorem addItem_twice_single_entry:
  assumes same: "trim (toLowerCase name2) = trim (toLowerCase name1)"
      and once: "length (filter (\<lambda>i. i_name i = trim (toLowerCase name1)) (shoppingList s)) \<le> 1"
      and first: "addItem name1 (Some q1) c1 t1 s = (a, s1)"
      and second: "addItem name2 (Some q2) c2 t2 s1 = (b, s2)"
  shows "filter (\<lambda>i. i_name i = trim (toLowerCase name1)) (shoppingList s2) = [b]
         \<and> i_quantity b
             = sum_list (map i_quantity
                 (filter (\<lambda>i. i_name i = trim (toLowerCase name1)) (shoppingList s))) + q1 + q2
         \<and> (find (\<lambda>i. i_name i = trim (toLowerCase name1)) (shoppingList s) = None \<longrightarrow>
               i_quantity b = q1 + q2 \<and> shoppingList s2 = shoppingList s @ [b])
         \<and> length (shoppingList s2) = length (shoppingList s1)
         \<and> nextId s2 = nextId s1"
proof (cases "find (\<lambda>i. i_name i = trim (toLowerCase name1)) (shoppingList s)")
  case None
  let ?n = "trim (toLowerCase name1)"
  let ?P = "\<lambda>i. i_name i = ?n"
  have empty: "filter ?P (shoppingList s) = []"
    using None by (auto simp: find_None_iff filter_empty_conv)
  from first addItem_new[OF None, of "Some q1" c1 t1]
  have a: "i_name a = ?n" "i_quantity a = q1" and s1: "shoppingList s1 = shoppingList s @ [a]"
    by (auto simp: Let_def)
  have found: "find (\<lambda>i. i_name i = trim (toLowerCase name2)) (shoppingList s1) = Some a"
    unfolding same s1 using None a(1) by (rule find_append_last)
  from second addItem_existing[OF found, of "Some q2" c2 t2]
  have b: "b = a\<lparr>i_quantity := i_quantity a + q2\<rparr>"
    and s2: "shoppingList s2 = updateFirst ?P (\<lambda>i. i\<lparr>i_quantity := i_quantity i + q2\<rparr>) (shoppingList s1)"
    and n2: "nextId s2 = nextId s1"
    by (auto simp: same)
  have l2: "shoppingList s2 = shoppingList s @ [b]"
    unfolding s2 s1 b using None a(1) by (rule updateFirst_append_last)
  have "?P b" using b a(1) by simp
  then have "filter ?P (shoppingList s2) = [b]"
    unfolding l2 using None by (intro filter_append_last)
  then show ?thesis using b a(2) l2 s1 n2 empty by simp
next
  case (Some e)
  let ?n = "trim (toLowerCase name1)"
  let ?P = "\<lambda>i. i_name i = ?n"
  let ?f1 = "\<lambda>i. i\<lparr>i_quantity := i_quantity i + q1\<rparr>"
  let ?f2 = "\<lambda>i. i\<lparr>i_quantity := i_quantity i + q2\<rparr>"
  from Some obtain ys where "filter ?P (shoppingList s) = e # ys"
    by (auto simp: find_as_filter split: list.splits)
  with once have only: "filter ?P (shoppingList s) = [e]" by simp
  from first addItem_existing[OF Some, of "Some q1" c1 t1]
  have a: "a = ?f1 e" and s1: "shoppingList s1 = updateFirst ?P ?f1 (shoppingList s)"
    by auto
  have found: "find (\<lambda>i. i_name i = trim (toLowerCase name2)) (shoppingList s1) = Some a"
    unfolding same s1 a using Some by (simp add: find_updateFirst)
  from second addItem_existing[OF found, of "Some q2" c2 t2]
  have b: "b = ?f2 a" and s2: "shoppingList s2 = updateFirst ?P ?f2 (shoppingList s1)"
    and n2: "nextId s2 = nextId s1"
    by (auto simp: same)
  have "filter ?P (shoppingList s1) = [a]"
    unfolding s1 a using only by (simp add: filter_updateFirst)
  then have "filter ?P (shoppingList s2) = [b]"
    unfolding s2 b by (simp add: filter_updateFirst)
  moreover have "i_quantity b = i_quantity e + q1 + q2" using a b by simp
  moreover have "length (shoppingList s2) = length (shoppingList s1)"
    unfolding s2 by (rule length_updateFirst)
  ultimately show ?thesis using only n2 Some by simp
qed

lemma sample_same_name: "trim (toLowerCase '' apples '') = trim (toLowerCase ''Apples'')"
  by code_simp

lemma sample_fresh:
  "find (\<lambda>i. i_name i = trim (toLowerCase ''Apples'')) (shoppingList initialStore) = None"
  "length (filter (\<lambda>i. i_name i = trim (toLowerCase ''Apples'')) (shoppingList initialStore)) \<le> 1"
  by (simp_all add: initialStore_def)

theorem addItem_twice_single_entry_witness:
  "map (\<lambda>i. (i_name i, i_quantity i))
     (shoppingList (snd (addItem '' apples '' (Some 3) None ''t2''
                      (snd (addItem ''Apples'' (Some 2) None ''t1'' initialStore)))))
   = [(''apples'', 5)]"
proof -
  obtain a s1 where 1: "addItem ''Apples'' (Some 2) None ''t1'' initialStore = (a, s1)"
    by (cases "addItem ''Apples'' (Some 2) None ''t1'' initialStore")
  obtain b s2 where 2: "addItem '' apples '' (Some 3) None ''t2'' s1 = (b, s2)"
    by (cases "addItem '' apples '' (Some 3) None ''t2'' s1")
  from addItem_twice_single_entry[OF sample_same_name sample_fresh(2) 1 2] sample_fresh(1)
  have "shoppingList s2 = shoppingList initialStore @ [b]" "i_quantity b = 2 + 3"
    "filter (\<lambda>i. i_name i = trim (toLowerCase ''Apples'')) (shoppingList s2) = [b]"
    by blast+
  moreover have "trim (toLowerCase ''Apples'') = ''apples''" by code_simp
  ultimately have l: "shoppingList s2 = [b]" and q: "i_quantity b = 5"
    and f: "filter (\<lambda>i. i_name i = ''apples'') [b] = [b]"
    by (simp_all add: initialStore_def)
  have "i_name b = ''apples''" using f by (simp split: if_splits)
  then show ?thesis using 1 2 l q by simp
qed

section \<open>The span of the reply that is decoded\<close>

lemma star_any:
  "length s \<le> n \<Longrightarrow> star n (rxm (Cls (\<lambda>c. True))) (s, c) = map (\<lambda>t. (t, c)) (suffixes s)"
proof (induction s arbitrary: n)
  case Nil
  then show ?case by (cases n) simp_all
next
  case (Cons x xs)
  then obtain m where n: "n = Suc m" and m: "length xs \<le> m" by (cases n) auto
  show ?case unfolding n using Cons.IH[OF m] by (simp add: progress_def)
qed

lemma no_close_in_suffix:
  assumes "CHR ''}'' \<notin> set post" "t \<in> set (suffixes post)"
  shows "rxm (Lit ''}'') (t, c) = []"
proof -
  from assms(2) have "suffix t post" by (simp add: in_set_suffixes)
  then have "set t \<subseteq> set post" by (rule set_mono_suffix)
  with assms(1) have "CHR ''}'' \<notin> set t" by auto
  then show ?thesis by (cases t) (auto simp: prefix_def)
qed

lemma close_last:
  assumes "CHR ''}'' \<notin> set post"
  shows "\<exists>rest. rxm (Seq (Star (Cls (\<lambda>c. True))) (Lit ''}'')) (mid @ CHR ''}'' # post, c) = (post, c) # rest"
proof -
  let ?f = "\<lambda>t. rxm (Lit ''}'') (t, c)"
  have 1: "concat (map ?f (suffixes post)) = []"
    using no_close_in_suffix[OF assms] by simp
  have 2: "?f (CHR ''}'' # post) = [(post, c)]" by simp
  have "suffixes (mid @ CHR ''}'' # post)
          = suffixes post @ [CHR ''}'' # post] @ map (\<lambda>xs'. xs' @ CHR ''}'' # post) (tl (suffixes mid))"
    by (simp add: suffixes_append)
  then have 3: "concat (map ?f (suffixes (mid @ CHR ''}'' # post)))
          = (post, c) # concat (map ?f (map (\<lambda>xs'. xs' @ CHR ''}'' # post) (tl (suffixes mid))))"
    using 1 2 by simp
  have "rxm (Seq (Star (Cls (\<lambda>c. True))) (Lit ''}'')) (mid @ CHR ''}'' # post, c)
          = concat (map (rxm (Lit ''}''))
              (star (length (mid @ CHR ''}'' # post)) (rxm (Cls (\<lambda>c. True))) (mid @ CHR ''}'' # post, c)))"
    by (simp only: rxm.simps fst_conv)
  also have "\<dots> = concat (map ?f (suffixes (mid @ CHR ''}'' # post)))"
    by (simp only: star_any[OF order_refl] map_map comp_def)
  finally show ?thesis using 3 by simp
qed

lemma jsonRegex_at_brace:
  assumes "CHR ''}'' \<notin> set post"
  shows "\<exists>rest. rxm jsonRegex (CHR ''{'' # mid @ CHR ''}'' # post, None) = (post, None) # rest"
proof -
  from close_last[OF assms, of mid None] obtain rest where
    "rxm (Seq (Star (Cls (\<lambda>c. True))) (Lit ''}'')) (mid @ CHR ''}'' # post, None) = (post, None) # rest"
    by blast
  then show ?thesis unfolding jsonRegex_def by simp
qed

lemma jsonRegex_not_brace: "x \<noteq> CHR ''{'' \<Longrightarrow> rxm jsonRegex (x # xs, None) = []"
  by (simp add: jsonRegex_def)

lemma jsonRegex_first_to_last:
  assumes "CHR ''{'' \<notin> set pre" and "CHR ''}'' \<notin> set post"
  shows "regexMatch jsonRegex (pre @ CHR ''{'' # mid @ CHR ''}'' # post)
           = Some (CHR ''{'' # mid @ ''}'', None)"
  using assms(1)
proof (induction pre)
  case Nil
  from jsonRegex_at_brace[OF assms(2), of mid] obtain rest where
    "rxm jsonRegex (CHR ''{'' # mid @ CHR ''}'' # post, None) = (post, None) # rest" by blast
  then show ?case by simp
next
  case (Cons x pre)
  then have "x \<noteq> CHR ''{''" by auto
  from jsonRegex_not_brace[OF this] Cons show ?case by simp
qed

lemma closeAt_shape:
  "closeAt d s = Some sp \<Longrightarrow> \<exists>body post. sp = body @ ''}'' \<and> s = sp @ post"
proof (induction s arbitrary: d sp)
  case Nil
  then show ?case by simp
next
  case (Cons c cs)
  have step: "\<exists>body post. sp = body @ ''}'' \<and> c # cs = sp @ post"
    if "closeAt e cs = Some z" "sp = c # z" for e z
  proof -
    from Cons.IH[OF that(1)] obtain body post where "z = body @ ''}''" "cs = z @ post" by blast
    then have "sp = (c # body) @ ''}''" "c # cs = sp @ post" using that(2) by simp_all
    then show ?thesis by blast
  qed
  show ?case
  proof (cases "c = CHR ''{''")
    case True
    with Cons.prems obtain z where "closeAt (Suc d) cs = Some z" "sp = c # z" by auto
    then show ?thesis by (rule step)
  next
    case False
    note nb = False
    show ?thesis
    proof (cases "c = CHR ''}''")
      case False
      with nb Cons.prems obtain z where "closeAt d cs = Some z" "sp = c # z" by auto
      then show ?thesis by (rule step)
    next
      case True
      show ?thesis
      proof (cases d)
        case 0
        with Cons.prems True show ?thesis by simp
      next
        case (Suc e)
        show ?thesis
        proof (cases e)
          case 0
          with Cons.prems True Suc have "sp = [c]" by simp
          then have "sp = [] @ ''}''" "c # cs = sp @ cs" using True by simp_all
          then show ?thesis by blast
        next
          case (Suc e')
          with Cons.prems True \<open>d = Suc e\<close> obtain z where "closeAt (Suc e') cs = Some z" "sp = c # z"
            by auto
          then show ?thesis by (rule step)
        qed
      qed
    qed
  qed
qed

lemma specFirstBalancedSpan_shape:
  assumes "specFirstBalancedSpan raw = Some sp"
  shows "\<exists>pre mid post. raw = pre @ sp @ post \<and> sp = CHR ''{'' # mid @ ''}'' \<and> CHR ''{'' \<notin> set pre"
proof -
  let ?pre = "takeWhile (\<lambda>c. c \<noteq> CHR ''{'') raw"
  let ?s = "dropWhile (\<lambda>c. c \<noteq> CHR ''{'') raw"
  from assms have c: "closeAt 0 ?s = Some sp" by (simp add: specFirstBalancedSpan_def)
  from closeAt_shape[OF c] obtain body post where b: "sp = body @ ''}''" "?s = sp @ post" by blast
  have "?s \<noteq> []" using c by (metis closeAt.simps(1) option.distinct(1))
  then have h: "hd ?s = CHR ''{''" using hd_dropWhile[of "\<lambda>c. c \<noteq> CHR ''{''" raw] by simp
  have "body \<noteq> []"
  proof
    assume "body = []"
    with b have "?s = CHR ''}'' # post" by simp
    with h show False by simp
  qed
  then obtain mid where m: "body = CHR ''{'' # mid" using b h by (cases body) auto
  have "raw = ?pre @ sp @ post" using b(2) by (metis takeWhile_dropWhile_id)
  moreover have "CHR ''{'' \<notin> set ?pre" by (auto dest: set_takeWhileD)
  ultimately show ?thesis using b(1) m by auto
qed

text \<open>
  Claim C4, as the code has it. The span that is decoded runs from the first opening brace
  of the reply to its last closing brace: prose before the first and after the last brace
  changes nothing of what is decoded. It is the first balanced span of the reply whenever
  no closing brace follows that span.
\<close>

theorem jsonMatch_first_to_last_brace:
  "(CHR ''{'' \<notin> set pre \<and> CHR ''}'' \<notin> set post \<longrightarrow>
      regexMatch jsonRegex (pre @ CHR ''{'' # mid @ CHR ''}'' # post)
        = Some (CHR ''{'' # mid @ ''}'', None)
    \<and> extractIntentViaLLM decode (Inr (pre @ CHR ''{'' # mid @ CHR ''}'' # post))
        = extractIntentViaLLM decode (Inr (CHR ''{'' # mid @ ''}'')))
   \<and> (specFirstBalancedSpan raw = Some sp \<longrightarrow>
        (\<exists>before after. raw = before @ sp @ after \<and> CHR ''{'' \<notin> set before
           \<and> (CHR ''}'' \<notin> set after \<longrightarrow> regexMatch jsonRegex raw = Some (sp, None))))"
proof (intro conjI impI)
  assume a: "CHR ''{'' \<notin> set pre \<and> CHR ''}'' \<notin> set post"
  then show 1: "regexMatch jsonRegex (pre @ CHR ''{'' # mid @ CHR ''}'' # post)
        = Some (CHR ''{'' # mid @ ''}'', None)"
    using jsonRegex_first_to_last by blast
  have 2: "regexMatch jsonRegex (CHR ''{'' # mid @ ''}'') = Some (CHR ''{'' # mid @ ''}'', None)"
    using jsonRegex_first_to_last[of "[]" "[]" mid] by simp
  show "extractIntentViaLLM decode (Inr (pre @ CHR ''{'' # mid @ CHR ''}'' # post))
        = extractIntentViaLLM decode (Inr (CHR ''{'' # mid @ ''}''))"
    unfolding extractIntentViaLLM_def using 1 2 by simp
next
  assume "specFirstBalancedSpan raw = Some sp"
  from specFirstBalancedSpan_shape[OF this] obtain before mid after where
    s: "raw = before @ sp @ after" "sp = CHR ''{'' # mid @ ''}''" "CHR ''{'' \<notin> set before"
    by blast
  have "regexMatch jsonRegex raw = Some (sp, None)" if "CHR ''}'' \<notin> set after"
    using jsonRegex_first_to_last[OF s(3) that, of mid] s(1,2) by simp
  then show "\<exists>before after. raw = before @ sp @ after \<and> CHR ''{'' \<notin> set before
           \<and> (CHR ''}'' \<notin> set after \<longrightarrow> regexMatch jsonRegex raw = Some (sp, None))"
    using s by blast
qed

lemma replyWithNote_parts:
  \<open>replyWithNote = ''Sure: '' @ CHR ''{'' # ''"intent":"ADD_ITEM","item":"Milk","quantity":-2'' @ CHR ''}'' # '' (JSON)''\<close>
  \<open>replyNegative = CHR ''{'' # ''"intent":"ADD_ITEM","item":"Milk","quantity":-2'' @ ''}''\<close>
  by (simp_all add: replyWithNote_def replyNegative_def)

lemma sample_balanced: "specFirstBalancedSpan replyWithNote = Some replyNegative"
  by code_simp

theorem jsonMatch_first_to_last_brace_witness:
  "regexMatch jsonRegex replyWithNote = Some (replyNegative, None)
   \<and> extractIntentViaLLM sampleDecode (Inr replyWithNote)
       = extractIntentViaLLM sampleDecode (Inr replyNegative)
   \<and> specFirstBalancedSpan replyWithNote = Some replyNegative"
proof -
  have "CHR ''{'' \<notin> set ''Sure: '' \<and> CHR ''}'' \<notin> set '' (JSON)''" by simp
  with jsonMatch_first_to_last_brace[of "''Sure: ''" "'' (JSON)''"
         \<open>''"intent":"ADD_ITEM","item":"Milk","quantity":-2''\<close> sampleDecode replyWithNote replyNegative]
  have "regexMatch jsonRegex replyWithNote = Some (replyNegative, None)
        \<and> extractIntentViaLLM sampleDecode (Inr replyWithNote)
            = extractIntentViaLLM sampleDecode (Inr replyNegative)"
    unfolding replyWithNote_parts[symmetric] by blast
  then show ?thesis using sample_balanced by simp
qed

text \<open>
  Claim C4 as stated fails: in a reply with a closing brace after its first balanced object
  the span that is decoded runs on to the last brace; it is not the first balanced span,
  and decoding it fails where decoding the first balanced span gives an intent.
\<close>

theorem first_balanced_span_counterexample:
  "regexMatch jsonRegex replyWithBraces = Some (replyWithBraces, None)
   \<and> specFirstBalancedSpan replyWithBraces = Some replyNegative
   \<and> replyWithBraces \<noteq> replyNegative
   \<and> parseIntent sampleDecode (Inr replyWithBraces) = Inl SyntaxError
   \<and> map_sum id n_item (parseIntent sampleDecode (Inr replyNegative)) = Inr (Some ''milk'')"
  by code_simp

section \<open>The quantity of an intent\<close>

lemma extractIntentViaLLM_Inr:
  assumes "extractIntentViaLLM decode reply = Inr intent"
  shows "\<exists>raw jsonMatch g members k.
           reply = Inr raw \<and> regexMatch jsonRegex raw = Some (jsonMatch, g)
         \<and> decode jsonMatch = Some members
         \<and> validIntent (getProp (JObj members) ''intent'') = Some k
         \<and> n_intent intent = k
         \<and> normalizedItem (getProp (JObj members) ''item'') = Inr (n_item intent)
         \<and> n_quantity intent = (case getProp (JObj members) ''quantity'' of JNum n \<Rightarrow> Some n | _ \<Rightarrow> None)"
  using assms unfolding extractIntentViaLLM_def Let_def
  by (auto split: sum.splits option.splits prod.splits if_splits)

lemma parseIntent_Inr:
  assumes "parseIntent decode reply = Inr intent"
  shows "\<exists>raw jsonMatch g members.
           reply = Inr raw \<and> regexMatch jsonRegex raw = Some (jsonMatch, g)
         \<and> decode jsonMatch = Some members
         \<and> n_quantity intent = (case getProp (JObj members) ''quantity'' of JNum n \<Rightarrow> Some n | _ \<Rightarrow> None)"
proof -
  from assms obtain r where r: "extractIntentViaLLM decode reply = Inr r"
    and i: "intent = r\<lparr>n_source := Some ''llm''\<rparr>"
    by (auto simp: parseIntent_def split: sum.splits)
  from extractIntentViaLLM_Inr[OF r] i show ?thesis by auto
qed

lemma applyIntent_add_default:
  assumes "n_intent i = ADD_ITEM" "given (n_item i)" "n_quantity i = None"
  shows "applyIntent env now i text s
          = Inr (Added 1 (fst (addItem (the (n_item i)) (Some 1) (n_category i) now s)),
                 snd (addItem (the (n_item i)) (Some 1) (n_category i) now s))"
  using assms by (simp add: applyIntent_def Let_def split: prod.splits)

text \<open>
  Claim C8, as the code has it. The quantity of an intent that the extractor produces is
  the number that the decoded reply gives as its quantity, whatever number it is, and
  absent when the reply gives no number. When an ADD intent without a quantity is applied,
  the quantity added is 1: the answer reports 1 and a new entry of the list has quantity 1.
\<close>

theorem quantity_is_payload_number_default_one:
  "(parseIntent decode reply = Inr intent \<longrightarrow>
      (\<exists>raw jsonMatch g members.
          reply = Inr raw \<and> regexMatch jsonRegex raw = Some (jsonMatch, g)
        \<and> decode jsonMatch = Some members
        \<and> n_quantity intent
            = (case getProp (JObj members) ''quantity'' of JNum n \<Rightarrow> Some n | _ \<Rightarrow> None)))
   \<and> (n_intent i = ADD_ITEM \<and> given (n_item i) \<and> n_quantity i = None \<longrightarrow>
        applyIntent env now i text s
          = Inr (Added 1 (fst (addItem (the (n_item i)) (Some 1) (n_category i) now s)),
                 snd (addItem (the (n_item i)) (Some 1) (n_category i) now s))
        \<and> (find (\<lambda>e. i_name e = trim (toLowerCase (the (n_item i)))) (shoppingList s) = None \<longrightarrow>
             i_quantity (fst (addItem (the (n_item i)) (Some 1) (n_category i) now s)) = 1))"
proof (intro conjI impI)
  assume "parseIntent decode reply = Inr intent"
  then show "\<exists>raw jsonMatch g members.
          reply = Inr raw \<and> regexMatch jsonRegex raw = Some (jsonMatch, g)
        \<and> decode jsonMatch = Some members
        \<and> n_quantity intent
            = (case getProp (JObj members) ''quantity'' of JNum n \<Rightarrow> Some n | _ \<Rightarrow> None)"
    by (rule parseIntent_Inr)
next
  assume "n_intent i = ADD_ITEM \<and> given (n_item i) \<and> n_quantity i = None"
  then show "applyIntent env now i text s
          = Inr (Added 1 (fst (addItem (the (n_item i)) (Some 1) (n_category i) now s)),
                 snd (addItem (the (n_item i)) (Some 1) (n_category i) now s))"
    using applyIntent_add_default by blast
next
  assume "find (\<lambda>e. i_name e = trim (toLowerCase (the (n_item i)))) (shoppingList s) = None"
  from addItem_new[OF this, of "Some 1" "n_category i" now]
  show "i_quantity (fst (addItem (the (n_item i)) (Some 1) (n_category i) now s)) = 1"
    by (simp add: Let_def)
qed

lemma sample_no_quantity:
  "parseIntent sampleDecode (Inr replyNoQuantity)
     = Inr \<lparr>n_intent = ADD_ITEM, n_item = Some ''milk'', n_quantity = None,
            n_language = JStr ''en'', n_source = Some ''llm'', n_category = None, n_brand = None,
            n_maxPrice = None, n_minPrice = None, n_size = None, n_qualifier = None\<rparr>"
  by code_simp

theorem quantity_is_payload_number_default_one_witness:
  "map_sum id n_quantity (parseIntent sampleDecode (Inr replyNoQuantity)) = Inr None
   \<and> map_sum id fst
        (applyIntent sampleEnv ''t'' (projr (parseIntent sampleDecode (Inr replyNoQuantity)))
           ''add milk'' initialStore)
       = Inr (Added 1 (fst (addItem ''milk'' (Some 1) None ''t'' initialStore)))
   \<and> i_quantity (fst (addItem ''milk'' (Some 1) None ''t'' initialStore)) = 1"
proof -
  let ?i = "projr (parseIntent sampleDecode (Inr replyNoQuantity))"
  have i: "n_intent ?i = ADD_ITEM \<and> given (n_item ?i) \<and> n_quantity ?i = None"
    and m: "the (n_item ?i) = ''milk''" "n_category ?i = None"
    unfolding sample_no_quantity by (simp_all add: given_def)
  have f: "find (\<lambda>e. i_name e = trim (toLowerCase (the (n_item ?i)))) (shoppingList initialStore) = None"
    by (simp add: initialStore_def)
  from quantity_is_payload_number_default_one[of sampleDecode "Inr replyNoQuantity" _ ?i sampleEnv "''t''" "''add milk''" initialStore]
    i f
  have "applyIntent sampleEnv ''t'' ?i ''add milk'' initialStore
          = Inr (Added 1 (fst (addItem (the (n_item ?i)) (Some 1) (n_category ?i) ''t'' initialStore)),
                 snd (addItem (the (n_item ?i)) (Some 1) (n_category ?i) ''t'' initialStore))"
    and "i_quantity (fst (addItem (the (n_item ?i)) (Some 1) (n_category ?i) ''t'' initialStore)) = 1"
    by blast+
  then show ?thesis unfolding m using sample_no_quantity by simp
qed

text \<open>
  Claim C8 as stated fails: a reply whose quantity is \<open>-2\<close> gives an intent with the
  quantity \<open>-2\<close>, which is not a positive integer, and applying it adds \<open>-2\<close>.
\<close>

theorem quantity_not_positive_counterexample:
  "map_sum id n_quantity (parseIntent sampleDecode (Inr replyNegative)) = Inr (Some (- 2))
   \<and> \<not> (0 < (- 2 :: rat))
   \<and> map_sum id fst
        (applyIntent sampleEnv ''t'' (projr (parseIntent sampleDecode (Inr replyNegative)))
           ''add milk'' initialStore)
       = Inr (Added (- 2)
               \<lparr>i_id = 1, i_name = ''milk'', i_quantity = - 2, i_category = ''Dairy'',
                i_addedAt = ''t''\<rparr>)"
  by code_simp

section \<open>When the extractor fails\<close>

lemma normalizedItem_fails:
  "(\<exists>e. normalizedItem v = Inl e) \<longleftrightarrow> truthy v \<and> typeof v \<noteq> ''string''"
  by (cases v) (auto simp: normalizedItem_def callToLowerCase_def callTrim_def)

lemma invalid_item_iff:
  "(\<not> truthy v \<or> typeof v \<noteq> ''string'' \<or> callTrim v = Inr [])
     \<longleftrightarrow> (\<forall>s. v = JStr s \<longrightarrow> trim s = [])"
  by (cases v) (auto simp: callTrim_def trim_def)

lemma extractIntentViaLLM_members:
  assumes "regexMatch jsonRegex raw = Some (jsonMatch, g)" "decode jsonMatch = Some members"
  shows "(\<exists>e. extractIntentViaLLM decode (Inr raw) = Inl e) \<longleftrightarrow>
           validIntent (getProp (JObj members) ''intent'') = None
         \<or> (\<exists>k. validIntent (getProp (JObj members) ''intent'') = Some k \<and> k \<noteq> UNKNOWN
                \<and> (\<forall>s. getProp (JObj members) ''item'' = JStr s \<longrightarrow> trim s = []))
         \<or> (validIntent (getProp (JObj members) ''intent'') = Some UNKNOWN
                \<and> truthy (getProp (JObj members) ''item'')
                \<and> typeof (getProp (JObj members) ''item'') \<noteq> ''string'')"
proof (cases "validIntent (getProp (JObj members) ''intent'')")
  case None
  then show ?thesis using assms by (simp add: extractIntentViaLLM_def)
next
  case (Some k)
  let ?item = "getProp (JObj members) ''item''"
  show ?thesis
  proof (cases "k = UNKNOWN")
    case True
    have "(\<exists>e. extractIntentViaLLM decode (Inr raw) = Inl e) \<longleftrightarrow> (\<exists>e. normalizedItem ?item = Inl e)"
      using assms Some True by (auto simp: extractIntentViaLLM_def Let_def split: sum.splits)
    then show ?thesis using Some True normalizedItem_fails by simp
  next
    case False
    show ?thesis
    proof (cases "\<forall>s. ?item = JStr s \<longrightarrow> trim s = []")
      case True
      then have "\<not> truthy ?item \<or> typeof ?item \<noteq> ''string'' \<or> callTrim ?item = Inr []"
        using invalid_item_iff by blast
      then have "extractIntentViaLLM decode (Inr raw) = Inl LlmInvalidItem"
        using assms Some False by (simp add: extractIntentViaLLM_def Let_def)
      then show ?thesis using Some False True by simp
    next
      case nt: False
      then have ok: "\<not> (\<not> truthy ?item \<or> typeof ?item \<noteq> ''string'' \<or> callTrim ?item = Inr [])"
        using invalid_item_iff by blast
      then have "\<not> (\<exists>e. normalizedItem ?item = Inl e)" using normalizedItem_fails by blast
      then obtain it where "normalizedItem ?item = Inr it" by (cases "normalizedItem ?item") auto
      then have "\<exists>r. extractIntentViaLLM decode (Inr raw) = Inr r"
        using assms Some False ok by (simp add: extractIntentViaLLM_def Let_def)
      then show ?thesis using Some False nt by auto
    qed
  qed
qed

lemma parseIntent_fails_as_extract:
  "(\<exists>e. parseIntent decode reply = Inl e) \<longleftrightarrow> (\<exists>e. extractIntentViaLLM decode reply = Inl e)"
  by (auto simp: parseIntent_def split: sum.splits)

text \<open>
  The failures of \<^verbatim>\<open>parseIntent\<close>, all of them: the call of the backend fails; the reply has
  no span from a brace to a brace; the span does not decode; the intent tag is not one of
  the four; an intent other than UNKNOWN has an item that is not a string with a character
  other than white space; or the intent is UNKNOWN and its item is truthy and not a string.
\<close>

lemma parseIntent_fails_iff:
  "(\<exists>e. parseIntent decode reply = Inl e) \<longleftrightarrow>
     (\<exists>e. reply = Inl e)
   \<or> (\<exists>raw. reply = Inr raw \<and> regexMatch jsonRegex raw = None)
   \<or> (\<exists>raw jsonMatch g. reply = Inr raw \<and> regexMatch jsonRegex raw = Some (jsonMatch, g)
         \<and> decode jsonMatch = None)
   \<or> (\<exists>raw jsonMatch g members. reply = Inr raw \<and> regexMatch jsonRegex raw = Some (jsonMatch, g)
         \<and> decode jsonMatch = Some members
         \<and> (validIntent (getProp (JObj members) ''intent'') = None
            \<or> (\<exists>k. validIntent (getProp (JObj members) ''intent'') = Some k \<and> k \<noteq> UNKNOWN
                   \<and> (\<forall>s. getProp (JObj members) ''item'' = JStr s \<longrightarrow> trim s = []))
            \<or> (validIntent (getProp (JObj members) ''intent'') = Some UNKNOWN
                   \<and> truthy (getProp (JObj members) ''item'')
                   \<and> typeof (getProp (JObj members) ''item'') \<noteq> ''string'')))"
proof (cases reply)
  case (Inl e)
  then show ?thesis by (simp add: parseIntent_def extractIntentViaLLM_def)
next
  case (Inr raw)
  show ?thesis
  proof (cases "regexMatch jsonRegex raw")
    case None
    then show ?thesis using Inr by (simp add: parseIntent_def extractIntentViaLLM_def)
  next
    case (Some m)
    obtain jsonMatch g where m: "m = (jsonMatch, g)" by (cases m)
    show ?thesis
    proof (cases "decode jsonMatch")
      case None
      then show ?thesis using Inr Some m by (simp add: parseIntent_def extractIntentViaLLM_def)
    next
      case (Some members)
      from extractIntentViaLLM_members[where decode=decode, OF \<open>regexMatch jsonRegex raw = Some m\<close>[unfolded m] Some]
      show ?thesis
        unfolding parseIntent_fails_as_extract using Inr \<open>regexMatch jsonRegex raw = Some m\<close> m Some
        by simp
    qed
  qed
qed

text \<open>
  Claim C2. The claim lists four failures of \<^verbatim>\<open>parseIntent\<close> and says that every other
  reply gives an intent. The reply \<^verbatim>\<open>{"intent":"UNKNOWN","item":5}\<close> is none of the four
  (the backend answered, the reply decodes, the tag is UNKNOWN), and on it the extractor
  raises TypeError: the item is normalised by a method call on a number.
\<close>

theorem parseIntent_unknown_with_number_item:
  "sampleDecode replyUnknownNumber = Some [(''intent'', JStr ''UNKNOWN''), (''item'', JNum 5)]
   \<and> regexMatch jsonRegex replyUnknownNumber = Some (replyUnknownNumber, None)
   \<and> validIntent (JStr ''UNKNOWN'') = Some UNKNOWN
   \<and> parseIntent sampleDecode (Inr replyUnknownNumber) = Inl TypeError"
  by code_simp

theorem parseIntent_unknown_with_number_item_witness:
  "isl (parseIntent sampleDecode (Inr replyUnknownNumber))
   \<and> parseIntent sampleDecode (Inr replyUnknownNumber) \<noteq> Inl LlmInvalidItem"
  using parseIntent_unknown_with_number_item by simp

section \<open>The advice classifier\<close>

lemma sample_substitute:
  "substituteAdvice (toLowerCase ''substitute for milk'')
     = Inr (Some \<lparr>a_type = SUBSTITUTE, a_category = ''substitute'',
                   a_suggestions = Names [''almond milk'', ''oat milk'', ''soy milk''],
                   a_message = InsteadOfMessage ''milk''\<rparr>)"
  by code_simp

text \<open>
  Claim C9. On the text \<^verbatim>\<open>substitute for milk\<close> the advice classifier returns an advice of
  type SUBSTITUTE whose suggestions are almond milk, oat milk and soy milk, in this order,
  whatever the month, the purchase history and the random order are.
\<close>

theorem advice_substitute_for_milk:
  "handleAdviceQuestion env ''substitute for milk''
     = Inr (Some \<lparr>a_type = SUBSTITUTE, a_category = ''substitute'',
                   a_suggestions = Names [''almond milk'', ''oat milk'', ''soy milk''],
                   a_message = InsteadOfMessage ''milk''\<rparr>)"
  unfolding handleAdviceQuestion_def Let_def sample_substitute by simp

theorem advice_substitute_for_milk_witness:
  "map_sum id (map_option a_suggestions) (handleAdviceQuestion sampleEnv ''substitute for milk'')
     = Inr (Some (Names [''almond milk'', ''oat milk'', ''soy milk'']))
   \<and> map_sum id (map_option a_type) (handleAdviceQuestion sampleEnv ''substitute for milk'')
     = Inr (Some SUBSTITUTE)"
  using advice_substitute_for_milk[of sampleEnv] by simp

section \<open>The translation gateway\<close>

lemma sample_hindi: "toLowerCase (splitFirst ''hi-IN'') = ''hi''"
  by code_simp

lemma sample_hindi_model: "modelFor ''hi'' = Some ''Helsinki-NLP/opus-mt-hi-en''"
  by code_simp

lemma translate_string:
  "translateToEnglish text (JStr tag) apiKey post =
     (if tag = [] \<or> toLowerCase (splitFirst tag) = ''en'' then Inr (text, False)
      else case modelFor (toLowerCase (splitFirst tag)) of
             None \<Rightarrow> Inr (text, False)
           | Some modelId \<Rightarrow>
               if \<not> given apiKey then Inr (text, False)
               else (case post (translationUrl modelId) text of
                       HttpFailed msg \<Rightarrow> Inr (text, False)
                     | HttpOk (JArr result) \<Rightarrow>
                         if truthy (firstTranslation result) then
                           (case callTrim (firstTranslation result) of
                              Inr translated \<Rightarrow> Inr (translated, True)
                            | Inl e \<Rightarrow> Inr (text, False))
                         else Inr (text, False)
                     | HttpOk _ \<Rightarrow> Inr (text, False)))"
  by (cases "tag = []") (simp_all add: translateToEnglish_def getLangPrefix_def toLowerCase_def splitFirst_def)

lemma translate_answer_never_raises:
  "\<exists>r. (case a of
           HttpFailed msg \<Rightarrow> Inr (text, False)
         | HttpOk (JArr result) \<Rightarrow>
             if truthy (firstTranslation result) then
               (case callTrim (firstTranslation result) of
                  Inr translated \<Rightarrow> Inr (translated, True)
                | Inl e \<Rightarrow> Inr (text, False))
             else Inr (text, False)
         | HttpOk _ \<Rightarrow> Inr (text, False)) = (Inr r :: error + string \<times> bool)"
proof (cases a)
  case (HttpFailed msg)
  then show ?thesis by auto
next
  case (HttpOk v)
  show ?thesis
  proof (cases v)
    case (JArr result)
    show ?thesis
      unfolding HttpOk JArr
      by (cases "callTrim (firstTranslation result)") auto
  qed (auto simp: HttpOk)
qed

lemma translate_never_raises: "\<exists>r. translateToEnglish text (JStr tag) apiKey post = Inr r"
proof (cases "modelFor (toLowerCase (splitFirst tag))")
  case None
  then show ?thesis unfolding translate_string by auto
next
  case (Some modelId)
  from translate_answer_never_raises[where a="post (translationUrl modelId) text"]
  show ?thesis unfolding translate_string Some by auto
qed

lemma modelFor_None_iff:
  "modelFor langCode = None
     \<longleftrightarrow> map_of TRANSLATION_MODELS langCode = None \<and> \<not> inheritedKey langCode"
  by (simp add: modelFor_def inheritedKey_def split: option.splits)

lemma translate_falsy:
  "\<not> truthy langTag \<Longrightarrow> translateToEnglish text langTag apiKey post = Inr (text, False)"
  by (simp add: translateToEnglish_def getLangPrefix_def)

lemma translationStep_catches:
  "translateToEnglish (trim text) (if bodyLang = JUndefined then JStr ''en-US'' else bodyLang)
       apiKey post = Inl e
   \<Longrightarrow> translationStep text bodyLang apiKey post = (text, False)"
  by (simp add: translationStep_def)

text \<open>
  Claim C5, as the code has it. For every text and every language tag that is a string,
  \<^verbatim>\<open>translateToEnglish\<close> raises nothing, and neither does it for a tag that is falsy
  (undefined, null, the empty string). It returns the text unchanged with
  \<open>wasTranslated = false\<close> whenever the part of the tag before the first hyphen, in lower
  case, is \<^verbatim>\<open>en\<close>, or is neither a key of \<^verbatim>\<open>TRANSLATION_MODELS\<close> nor a name that every
  object inherits, or the credential is absent or empty, or the call of the backend
  fails; so it does for the tag \<^verbatim>\<open>hi-IN\<close> without a credential, and for a falsy tag.
\<close>

theorem translateToEnglish_falls_back:
  "(\<exists>r. translateToEnglish text (JStr tag) apiKey post = Inr r)
   \<and> (toLowerCase (splitFirst tag) = ''en''
        \<or> (map_of TRANSLATION_MODELS (toLowerCase (splitFirst tag)) = None
             \<and> \<not> inheritedKey (toLowerCase (splitFirst tag)))
        \<or> \<not> given apiKey
        \<or> (\<exists>modelId msg. modelFor (toLowerCase (splitFirst tag)) = Some modelId
              \<and> post (translationUrl modelId) text = HttpFailed msg)
      \<longrightarrow> translateToEnglish text (JStr tag) apiKey post = Inr (text, False))
   \<and> translateToEnglish text (JStr ''hi-IN'') None post = Inr (text, False)
   \<and> (\<not> truthy langTag \<longrightarrow> translateToEnglish text langTag apiKey post = Inr (text, False))
   \<and> translateToEnglish text JUndefined apiKey post = Inr (text, False)
   \<and> translateToEnglish text JNull apiKey post = Inr (text, False)"
proof (intro conjI impI)
  show "\<exists>r. translateToEnglish text (JStr tag) apiKey post = Inr r"
    by (rule translate_never_raises)
next
  assume a: "toLowerCase (splitFirst tag) = ''en''
        \<or> (map_of TRANSLATION_MODELS (toLowerCase (splitFirst tag)) = None
             \<and> \<not> inheritedKey (toLowerCase (splitFirst tag)))
        \<or> \<not> given apiKey
        \<or> (\<exists>modelId msg. modelFor (toLowerCase (splitFirst tag)) = Some modelId
              \<and> post (translationUrl modelId) text = HttpFailed msg)"
  show "translateToEnglish text (JStr tag) apiKey post = Inr (text, False)"
  proof (cases "modelFor (toLowerCase (splitFirst tag))")
    case None
    then show ?thesis unfolding translate_string by simp
  next
    case (Some modelId)
    then have "\<not> (map_of TRANSLATION_MODELS (toLowerCase (splitFirst tag)) = None
             \<and> \<not> inheritedKey (toLowerCase (splitFirst tag)))"
      using modelFor_None_iff[of "toLowerCase (splitFirst tag)"] by simp
    with a Some consider "toLowerCase (splitFirst tag) = ''en''" | "\<not> given apiKey"
      | msg where "post (translationUrl modelId) text = HttpFailed msg" by auto
    then show ?thesis
      unfolding translate_string Some by cases simp_all
  qed
next
  show "translateToEnglish text (JStr ''hi-IN'') None post = Inr (text, False)"
    unfolding translate_string by (simp add: sample_hindi sample_hindi_model given_def)
next
  assume "\<not> truthy langTag"
  then show "translateToEnglish text langTag apiKey post = Inr (text, False)"
    by (rule translate_falsy)
next
  show "translateToEnglish text JUndefined apiKey post = Inr (text, False)"
    by (simp add: translate_falsy)
next
  show "translateToEnglish text JNull apiKey post = Inr (text, False)"
    by (simp add: translate_falsy)
qed

lemma sample_unregistered:
  "toLowerCase (splitFirst ''ja-JP'') = ''ja''"
  "map_of TRANSLATION_MODELS ''ja'' = None"
  "\<not> inheritedKey ''ja''"
  by code_simp+

theorem translateToEnglish_falls_back_witness:
  "translateToEnglish ''doodh chahiye'' (JStr ''hi-IN'') None sampleBackend
     = Inr (''doodh chahiye'', False)
   \<and> translateToEnglish ''doodh chahiye'' (JStr ''hi-IN'') (Some ''hf_key'')
        (\<lambda>url inputs. HttpFailed ''timeout'')
     = Inr (''doodh chahiye'', False)
   \<and> translateToEnglish ''add milk'' (JStr ''en-US'') (Some ''hf_key'') sampleBackend
     = Inr (''add milk'', False)
   \<and> translateToEnglish ''miruku'' (JStr ''ja-JP'') (Some ''hf_key'') sampleBackend
     = Inr (''miruku'', False)
   \<and> translateToEnglish ''add milk'' (JStr []) (Some ''hf_key'') sampleBackend
     = Inr (''add milk'', False)"
proof -
  have en: "toLowerCase (splitFirst ''en-US'') = ''en''" by code_simp
  have falsy: "\<not> truthy (JStr [])" by simp
  note t = translateToEnglish_falls_back
  from t[of "''doodh chahiye''" "''hi-IN''" None sampleBackend]
  have 1: "translateToEnglish ''doodh chahiye'' (JStr ''hi-IN'') None sampleBackend
     = Inr (''doodh chahiye'', False)" by blast
  from t[of "''doodh chahiye''" "''hi-IN''" "Some ''hf_key''" "\<lambda>url inputs. HttpFailed ''timeout''"]
    sample_hindi sample_hindi_model
  have 2: "translateToEnglish ''doodh chahiye'' (JStr ''hi-IN'') (Some ''hf_key'')
        (\<lambda>url inputs. HttpFailed ''timeout'') = Inr (''doodh chahiye'', False)" by simp
  from t[of "''add milk''" "''en-US''" "Some ''hf_key''" sampleBackend] en
  have 3: "translateToEnglish ''add milk'' (JStr ''en-US'') (Some ''hf_key'') sampleBackend
     = Inr (''add milk'', False)" by blast
  from t[of "''miruku''" "''ja-JP''" "Some ''hf_key''" sampleBackend] sample_unregistered
  have 4: "translateToEnglish ''miruku'' (JStr ''ja-JP'') (Some ''hf_key'') sampleBackend
     = Inr (''miruku'', False)" by simp
  from t[of "''add milk''" "''x''" "Some ''hf_key''" sampleBackend "JStr []"] falsy
  have 5: "translateToEnglish ''add milk'' (JStr []) (Some ''hf_key'') sampleBackend
     = Inr (''add milk'', False)" by blast
  from 1 2 3 4 5 show ?thesis by blast
qed

text \<open>
  Claim C5 as stated fails twice. A tag that is a number makes \<^verbatim>\<open>langTag.split\<close> raise
  TypeError. The tag \<^verbatim>\<open>constructor\<close> is no key of \<^verbatim>\<open>TRANSLATION_MODELS\<close>, yet the lookup
  finds the inherited property, the backend is called, and its answer is returned with
  \<open>wasTranslated = true\<close>; the route \<^verbatim>\<open>POST /api/process\<close> passes that on.
\<close>

theorem translateToEnglish_raises_counterexample:
  "translateToEnglish ''hola'' (JNum 5) (Some ''hf_key'') sampleBackend = Inl TypeError
   \<and> map_of TRANSLATION_MODELS (toLowerCase (splitFirst ''constructor'')) = None
   \<and> translateToEnglish ''hola'' (JStr ''constructor'') (Some ''hf_key'') sampleBackend
       = Inr (''hello'', True)
   \<and> translationStep ''hola'' (JStr ''constructor'') (Some ''hf_key'') sampleBackend
       = (''hello'', True)"
  by code_simp

end
